theory Spec2Isabelle
  imports Complex_Main "HOL-Library.Sublist"
begin

section \<open>JavaScript strings\<close>

text \<open>
  A JavaScript string is modelled as a \<^typ>\<open>string\<close>, one \<^typ>\<open>char\<close> per code unit.
  The model covers ASCII text: case mapping acts on the letters A-Z and a-z only and the
  white space of \<open>\s\<close> and \<open>trim\<close> is tab, line feed, vertical tab, form feed, carriage
  return and space. Every other character is a caseless, non-blank character.
\<close>

definition lowerChar :: "char \<Rightarrow> char" where
  "lowerChar c = (let n = (of_char c :: nat) in if 65 \<le> n \<and> n \<le> 90 then char_of (n + 32) else c)"

definition upperChar :: "char \<Rightarrow> char" where
  "upperChar c = (let n = (of_char c :: nat) in if 97 \<le> n \<and> n \<le> 122 then char_of (n - 32) else c)"

definition toLowerCase :: "string \<Rightarrow> string" where
  "toLowerCase s = map lowerChar s"

definition toUpperCase :: "string \<Rightarrow> string" where
  "toUpperCase s = map upperChar s"

definition isWhiteSpace :: "char \<Rightarrow> bool" where
  "isWhiteSpace c = (let n = (of_char c :: nat) in (9 \<le> n \<and> n \<le> 13) \<or> n = 32)"

definition isLineTerminator :: "char \<Rightarrow> bool" where
  "isLineTerminator c = (let n = (of_char c :: nat) in n = 10 \<or> n = 13)"

definition isDigit :: "char \<Rightarrow> bool" where
  "isDigit c = (let n = (of_char c :: nat) in 48 \<le> n \<and> n \<le> 57)"

definition isLowerAZ :: "char \<Rightarrow> bool" where
  "isLowerAZ c = (let n = (of_char c :: nat) in 97 \<le> n \<and> n \<le> 122)"

definition isUpperAZ :: "char \<Rightarrow> bool" where
  "isUpperAZ c = (let n = (of_char c :: nat) in 65 \<le> n \<and> n \<le> 90)"

definition isWordChar :: "char \<Rightarrow> bool" where
  "isWordChar c = (isLowerAZ c \<or> isUpperAZ c \<or> isDigit c \<or> c = CHR ''_'')"

text \<open>\<open>s.trim()\<close>\<close>

definition trim :: "string \<Rightarrow> string" where
  "trim s = rev (dropWhile isWhiteSpace (rev (dropWhile isWhiteSpace s)))"

text \<open>\<open>s.includes(p)\<close>: \<open>p\<close> occurs in \<open>s\<close> as a contiguous substring.\<close>

fun includesStr :: "string \<Rightarrow> string \<Rightarrow> bool" where
  "includesStr [] p = (p = [])"
| "includesStr (c # cs) p = (prefix p (c # cs) \<or> includesStr cs p)"

text \<open>\<open>xs.join(sep)\<close>\<close>

fun join :: "string list \<Rightarrow> string \<Rightarrow> string" where
  "join [] sep = []"
| "join [x] sep = x"
| "join (x # y # ys) sep = x @ sep @ join (y # ys) sep"

text \<open>\<open>n.toString()\<close> for a non-negative integer.\<close>

fun natToString :: "nat \<Rightarrow> string" where
  "natToString n =
     (if n < 10 then [char_of (48 + n)]
      else natToString (n div 10) @ [char_of (48 + n mod 10)])"

text \<open>A template literal spanning several lines: its lines joined by line feeds.\<close>

definition lines :: "string list \<Rightarrow> string" where
  "lines ls = join ls [CHR 0x0A]"

section \<open>Data model (\<open>types/index.ts\<close>)\<close>

datatype QuestionType = coding | sql | theoretical | behavioral

datatype Difficulty = easy | medium | hard

record Question =
  qid :: string
  type :: QuestionType
  question :: string
  difficulty :: Difficulty
  language :: "string option"
  expectedAnswer :: "string option"
  hints :: "string list option"
  category :: string
  points :: nat

record JobDescription =
  title :: string
  company :: string
  requiredSkills :: "string list"
  preferredSkills :: "string list"
  description :: string
  experience :: string
  languages :: "string list"
  tools :: "string list"
  softSkills :: "string list"

section \<open>\<open>AnswerEvaluator\<close>\<close>

text \<open>
  The three public evaluators return objects that share \<open>score\<close>, \<open>feedback\<close> and
  \<open>isCorrect\<close>; each adds one optional field, \<open>None\<close> where the source leaves it
  \<open>undefined\<close>. Scores are JavaScript numbers; every value the evaluators compute is a
  multiple of one half, so \<^typ>\<open>rat\<close> holds them exactly.
\<close>

record evaluation =
  score :: rat
  feedback :: string
  isCorrect :: bool

record code_evaluation = evaluation +
  fixedCode :: "string option"

record theoretical_evaluation = evaluation +
  idealAnswer :: "string option"

record behavioral_evaluation = evaluation +
  starAnalysis :: "string option"

text \<open>What a call of the evaluator can throw.\<close>

datatype js_error = TypeError string

subsection \<open>\<open>isNonsenseInput\<close>\<close>

text \<open>\<open>input.replace(/\s+/g, '').toLowerCase()\<close>\<close>

definition cleaned :: "string \<Rightarrow> string" where
  "cleaned input = toLowerCase (filter (\<lambda>c. \<not> isWhiteSpace c) input)"

text \<open>\<open>/^[a-z]{3,}$/.test(s)\<close>\<close>

definition onlyLetters3 :: "string \<Rightarrow> bool" where
  "onlyLetters3 s = (3 \<le> length s \<and> list_all isLowerAZ s)"

text \<open>
  \<open>\b\<close> at index \<open>i\<close> of \<open>s\<close>: exactly one of the characters before and after the
  index is a word character; outside the string there is none.
\<close>

definition wordBoundary :: "string \<Rightarrow> nat \<Rightarrow> bool" where
  "wordBoundary s i =
     ((0 < i \<and> i \<le> length s \<and> isWordChar (s ! (i - 1))) \<noteq> (i < length s \<and> isWordChar (s ! i)))"

definition codeWords :: "string list" where
  "codeWords = [''function'', ''class'', ''def'', ''select'', ''if'', ''for'', ''while'',
                ''return'', ''print'', ''console'']"

text \<open>\<open>/\b(function|class|def|select|if|for|while|return|print|console)\b/.test(s)\<close>\<close>

definition hasCodeWord :: "string \<Rightarrow> bool" where
  "hasCodeWord s =
     list_ex (\<lambda>i. wordBoundary s i \<and>
                list_ex (\<lambda>w. prefix w (drop i s) \<and> wordBoundary s (i + length w)) codeWords)
             [0 ..< Suc (length s)]"

text \<open>\<open>/(.)\1{4,}/.test(s)\<close>: some character other than a line terminator, five times in a row.\<close>

fun repeated5 :: "string \<Rightarrow> bool" where
  "repeated5 [] = False"
| "repeated5 (c # cs) = ((\<not> isLineTerminator c \<and> take 4 cs = replicate 4 c) \<or> repeated5 cs)"

definition mashPatterns :: "string list" where
  "mashPatterns = [''asdf'', ''qwer'', ''zxcv'', ''hjkl'', ''1234'', ''abcd'']"

definition isNonsenseInput :: "string \<Rightarrow> bool" where
  "isNonsenseInput input =
     (let c = cleaned input in
      if onlyLetters3 c \<and> \<not> hasCodeWord c then True
      else if repeated5 c then True
      else list_ex (\<lambda>pattern. includesStr c pattern) mashPatterns)"

subsection \<open>Canned fixes and ideal answers\<close>

definition generateJavaScriptFix :: "Question \<Rightarrow> string" where
  \<open>generateJavaScriptFix q =
     (if includesStr (toLowerCase (question q)) ''reverse'' then
        lines [''// Correct solution for reversing a string'',
               ''function reverseString(str) {'',
               ''    let reversed = '' @ [CHR 0x27, CHR 0x27] @ '';'',
               ''    for (let i = str.length - 1; i >= 0; i--) {'',
               ''        reversed += str[i];'',
               ''    }'',
               ''    return reversed;'',
               ''}'',
               '''',
               ''console.log(reverseString("hello")); // "olleh"'']
      else if includesStr (toLowerCase (question q)) ''second largest'' then
        lines [''// Correct solution for second largest number'',
               ''function secondLargest(arr) {'',
               ''    let largest = -Infinity;'',
               ''    let secondLargest = -Infinity;'',
               ''    '',
               ''    for (let num of arr) {'',
               ''        if (num > largest) {'',
               ''            secondLargest = largest;'',
               ''            largest = num;'',
               ''        } else if (num > secondLargest && num < largest) {'',
               ''            secondLargest = num;'',
               ''        }'',
               ''    }'',
               ''    '',
               ''    return secondLargest;'',
               ''}'',
               '''',
               ''console.log(secondLargest([1, 5, 3, 9, 2])); // 5'']
      else
        lines [''// Fixed code with proper structure'',
               ''function solution() {'',
               ''    // Your implementation here'',
               ''    return result;'',
               ''}''])\<close>

definition generatePythonFix :: "Question \<Rightarrow> string" where
  \<open>generatePythonFix q =
     (if includesStr (toLowerCase (question q)) ''reverse'' then
        lines [''# Correct solution for reversing a string'',
               ''def reverse_string(s):'',
               ''    reversed_str = ""'',
               ''    for i in range(len(s) - 1, -1, -1):'',
               ''        reversed_str += s[i]'',
               ''    return reversed_str'',
               '''',
               ''print(reverse_string("hello"))  # "olleh"'']
      else
        lines [''# Fixed Python code'',
               ''def solution():'',
               ''    # Your implementation here'',
               ''    return result''])\<close>

definition generateSQLFix :: "Question \<Rightarrow> string" where
  \<open>generateSQLFix q =
     (if includesStr (toLowerCase (question q)) ''second highest'' then
        lines [''-- Correct solution for second highest salary'',
               ''SELECT salary '',
               ''FROM Employee '',
               ''ORDER BY salary DESC '',
               ''LIMIT 1 OFFSET 1;'',
               '''',
               ''-- Alternative using window functions'',
               ''SELECT DISTINCT salary'',
               ''FROM ('',
               ''    SELECT salary, '',
               ''           ROW_NUMBER() OVER (ORDER BY salary DESC) as rn'',
               ''    FROM Employee'',
               '') ranked'',
               ''WHERE rn = 2;'']
      else
        lines [''-- Fixed SQL query'',
               ''SELECT column_name'',
               ''FROM table_name'',
               ''WHERE condition;''])\<close>

definition getJavaScriptFix :: "Question \<Rightarrow> string" where
  "getJavaScriptFix q = ''Here's the corrected JavaScript approach with proper syntax and logic.''"

definition getPythonFix :: "Question \<Rightarrow> string" where
  "getPythonFix q = ''Here's the corrected Python solution with proper indentation and structure.''"

definition getSQLFix :: "Question \<Rightarrow> string" where
  "getSQLFix q = ''Here's the corrected SQL query with proper syntax and logic.''"

definition getIdealAnswer :: "Question \<Rightarrow> string" where
  "getIdealAnswer q =
     (if includesStr (toLowerCase (question q)) ''rest'' \<and> includesStr (toLowerCase (question q)) ''graphql''
      then ''REST uses multiple endpoints for different resources with standard HTTP methods, while GraphQL uses a single endpoint where clients specify exactly what data they need. GraphQL prevents over-fetching and under-fetching, offers strong typing, and provides better developer tools, but REST is simpler and has better caching.''
      else ''A comprehensive answer should cover the main concepts, provide examples, and explain the practical implications.'')"

subsection \<open>Code evaluation\<close>

text \<open>
  \<open>evaluateJavaScript\<close> calls \<open>new Function(code)\<close> inside \<open>try\<close>: the JavaScript engine
  parses the submission as a function body and throws a \<open>SyntaxError\<close> when it is not
  one; the function object is never called. The engine's verdict is the parameter
  \<open>parses\<close>: \<open>parses code\<close> holds when \<open>new Function(code)\<close> returns.
\<close>

definition evaluateJavaScript :: "(string \<Rightarrow> bool) \<Rightarrow> string \<Rightarrow> Question \<Rightarrow> code_evaluation" where
  "evaluateJavaScript parses code q =
     (let issues0 = (if \<not> includesStr code ''function'' \<and> \<not> includesStr code ''=>'' \<and>
                        \<not> includesStr code ''const'' \<and> \<not> includesStr code ''let''
                     then [''Missing function declaration''] else []);
          score0 = (0::rat);
          (issues1, score1) =
            (if includesStr (toLowerCase (question q)) ''reverse'' then
               (if includesStr code ''.reverse()'' then
                  (issues0 @ [''You used the built-in reverse() method, but the question asks to implement without built-in methods''], 3)
                else if includesStr code ''for'' \<or> includesStr code ''while'' then (issues0, 8)
                else (issues0 @ [''Consider using a loop to reverse the string''], 4))
             else (issues0, score0));
          (issues2, score2) =
            (if includesStr (toLowerCase (question q)) ''second largest'' then
               (if includesStr code ''sort'' then
                  (issues1 @ [''Sorting works but is not the most efficient approach (O(n log n))''], 6)
                else if includesStr code ''Math.max'' then (issues1, 7)
                else (issues1 @ [''Consider tracking the largest and second largest values in a single pass''], 5))
             else (issues1, score1));
          (issues, score') =
            (if parses code then (issues2, score2 + 2)
             else (issues2 @ [''Syntax error detected''], max 0 (score2 - 2)))
      in \<lparr> score = min 10 score',
           feedback = (if 0 < length issues
                       then ''Issues found: '' @ join issues '', '' @ ''. '' @ getJavaScriptFix q
                       else ''Good solution! Your code demonstrates proper JavaScript syntax and logic.''),
           isCorrect = (7 \<le> score'),
           fixedCode = (if 0 < length issues then Some (generateJavaScriptFix q) else None) \<rparr>)"

definition evaluatePython :: "string \<Rightarrow> Question \<Rightarrow> code_evaluation" where
  "evaluatePython code q =
     (let issues0 = (if \<not> includesStr code ''def '' \<and> \<not> includesStr code ''lambda''
                     then [''Missing function definition''] else []);
          issues1 = (if \<not> includesStr code ''return''
                     then issues0 @ [''Missing return statement''] else issues0);
          issues2 = (if includesStr code ''def '' \<and> \<not> includesStr code ''    ''
                     then issues1 @ [''Python requires proper indentation''] else issues1);
          score0 = (0::rat);
          (issues, score1) =
            (if includesStr (toLowerCase (question q)) ''reverse'' then
               (if includesStr code ''[::-1]'' then
                  (issues2 @ [''You used slicing, but try implementing without built-in methods''], 6)
                else if includesStr code ''for'' \<or> includesStr code ''while'' then (issues2, 8)
                else (issues2, score0))
             else (issues2, score0));
          score' = score1 + (if length issues = 0 then 8 else max 2 (6 - rat_of_nat (length issues)))
      in \<lparr> score = min 10 score',
           feedback = (if 0 < length issues
                       then ''Issues: '' @ join issues '', '' @ ''. '' @ getPythonFix q
                       else ''Excellent Python code! Good use of syntax and logic.''),
           isCorrect = (7 \<le> score'),
           fixedCode = (if 0 < length issues then Some (generatePythonFix q) else None) \<rparr>)"

definition evaluateSQL :: "string \<Rightarrow> Question \<Rightarrow> code_evaluation" where
  "evaluateSQL code q =
     (let hasBasicStructure = (includesStr (toUpperCase code) ''SELECT'' \<and> includesStr (toUpperCase code) ''FROM'');
          (issues0, score0) =
            (if \<not> hasBasicStructure then ([''Missing basic SELECT...FROM structure''], (1::rat))
             else ([], 5));
          (issues1, score1) =
            (if includesStr (toLowerCase (question q)) ''second highest'' then
               (if includesStr (toUpperCase code) ''LIMIT'' \<and> includesStr (toUpperCase code) ''OFFSET''
                then (issues0, 8)
                else if includesStr (toUpperCase code) ''ROW_NUMBER()'' \<or> includesStr (toUpperCase code) ''RANK()''
                then (issues0, 9)
                else (issues0 @ [''Consider using LIMIT with OFFSET or window functions for second highest''], 4))
             else (issues0, score0));
          (issues, score') =
            (if includesStr (toLowerCase (question q)) ''join'' then
               (if \<not> includesStr (toUpperCase code) ''JOIN''
                then (issues1 @ [''This question requires a JOIN operation''], 2)
                else (issues1, 8))
             else (issues1, score1))
      in \<lparr> score = min 10 score',
           feedback = (if 0 < length issues
                       then ''SQL Issues: '' @ join issues '', '' @ ''. '' @ getSQLFix q
                       else ''Great SQL query! Proper syntax and logic.''),
           isCorrect = (7 \<le> score'),
           fixedCode = (if 0 < length issues then Some (generateSQLFix q) else None) \<rparr>)"

definition evaluateGenericCode :: "string \<Rightarrow> Question \<Rightarrow> code_evaluation" where
  "evaluateGenericCode code q =
     (let (issues, score0) =
            (if length code < 10 then ([''Code is too short''], (1::rat))
             else if 20 < length code then ([], 5)
             else ([], 0));
          score' = (if includesStr code ''if'' \<or> includesStr code ''for'' \<or> includesStr code ''while''
                    then score0 + 2 else score0)
      in \<lparr> score = min 10 score',
           feedback = (if 0 < length issues
                       then ''Issues: '' @ join issues '', '' @ ''. Please provide a more complete solution.''
                       else ''Code structure looks reasonable.''),
           isCorrect = (6 \<le> score'),
           fixedCode = None \<rparr>)"

text \<open>
  The class has no member \<open>evaluateJava\<close>: the branch \<open>case 'java'\<close> of \<open>evaluateCode\<close>
  calls \<open>this.evaluateJava(code, question)\<close>, which throws a \<open>TypeError\<close>.
\<close>

definition evaluateCode :: "(string \<Rightarrow> bool) \<Rightarrow> string \<Rightarrow> Question \<Rightarrow> js_error + code_evaluation" where
  "evaluateCode parses code q =
     (if code = [] \<or> length (trim code) = 0 then
        Inr \<lparr> score = 0,
              feedback = ''No code provided. Please write a solution to the problem.'',
              isCorrect = False, fixedCode = None \<rparr>
      else if isNonsenseInput code then
        Inr \<lparr> score = 0,
              feedback = ''This is not valid code. Please write a proper function or solution.'',
              isCorrect = False, fixedCode = None \<rparr>
      else
        (let lang = (case language q of
                       None \<Rightarrow> ''javascript''
                     | Some l \<Rightarrow> if toLowerCase l = [] then ''javascript'' else toLowerCase l)
         in if lang = ''javascript'' then Inr (evaluateJavaScript parses code q)
            else if lang = ''python'' then Inr (evaluatePython code q)
            else if lang = ''java'' then Inl (TypeError ''this.evaluateJava is not a function'')
            else if lang = ''sql'' then Inr (evaluateSQL code q)
            else Inr (evaluateGenericCode code q)))"

text \<open>
  The arguments of every \<open>code.includes(...)\<close> in the four code evaluators, and of every
  \<open>code.toUpperCase().includes(...)\<close> in \<open>evaluateSQL\<close>.
\<close>

definition codeProbes :: "string list" where
  "codeProbes = [''function'', ''=>'', ''const'', ''let'', ''.reverse()'', ''for'', ''while'',
                 ''sort'', ''Math.max'', ''def '', ''lambda'', ''return'', ''    '', ''[::-1]'', ''if'']"

definition sqlProbes :: "string list" where
  "sqlProbes = [''SELECT'', ''FROM'', ''LIMIT'', ''OFFSET'', ''ROW_NUMBER()'', ''RANK()'', ''JOIN'']"

subsection \<open>Theoretical answers\<close>

definition principles :: "string list" where
  "principles = [''single responsibility'', ''open closed'', ''liskov substitution'',
                 ''interface segregation'', ''dependency inversion'']"

definition concepts :: "string list" where
  "concepts = [''independent'', ''scalable'', ''distributed'', ''api'', ''database'', ''deployment'']"

text \<open>\<open>p.replace(' ', '')\<close> with a string pattern removes the first space only.\<close>

definition evaluateByCategory :: "string \<Rightarrow> Question \<Rightarrow> theoretical_evaluation" where
  "evaluateByCategory answer q =
     (let answerLower = toLowerCase answer;
          score0 = (0::rat);
          (score1, feedback1) =
            (if includesStr (toLowerCase (question q)) ''rest'' \<and> includesStr (toLowerCase (question q)) ''graphql'' then
               (let hasREST = (includesStr answerLower ''rest'' \<or> includesStr answerLower ''representational'');
                    hasGraphQL = (includesStr answerLower ''graphql'' \<or> includesStr answerLower ''graph ql'');
                    mentionsHTTP = (includesStr answerLower ''http'' \<or> includesStr answerLower ''endpoint'');
                    mentionsQuery = (includesStr answerLower ''query'' \<or> includesStr answerLower ''single endpoint'');
                    sa = (if hasREST \<and> hasGraphQL then score0 + 4 else score0);
                    sb = (if mentionsHTTP then sa + 2 else sa);
                    sc = (if mentionsQuery then sb + 2 else sb);
                    sd = (if includesStr answerLower ''over-fetching'' \<or> includesStr answerLower ''under-fetching''
                          then sc + 2 else sc)
                in (sd, if sd < 6
                        then [''Try explaining the key differences: REST uses multiple endpoints, GraphQL uses a single endpoint with flexible queries'']
                        else []))
             else (score0, []));
          (score2, feedback2) =
            (if includesStr (toLowerCase (question q)) ''solid'' then
               (let mentionedPrinciples = filter (\<lambda>p. includesStr answerLower (remove1 CHR '' '' p)) principles;
                    s = rat_of_nat (length mentionedPrinciples) * 2
                in (s, if s < 6
                       then feedback1 @ [''SOLID includes: Single Responsibility, Open/Closed, Liskov Substitution, Interface Segregation, Dependency Inversion'']
                       else feedback1))
             else (score1, feedback1));
          (score3, feedback3) =
            (if includesStr (toLowerCase (question q)) ''microservices'' then
               (let mentionedConcepts = filter (\<lambda>c. includesStr answerLower c) concepts;
                    s = min 8 (rat_of_nat (length mentionedConcepts) * (3 / 2))
                in (s, if s < 6
                       then feedback2 @ [''Mention key aspects: independent services, separate databases, API communication, independent deployment'']
                       else feedback2))
             else (score2, feedback2));
          score' = (if score3 = 0
                    then (if 100 < length answer then 6 else if 50 < length answer then 4 else 2)
                    else score3)
      in \<lparr> score = min 10 score',
           feedback = (if 0 < length feedback3 then join feedback3 ''. ''
                       else if 7 \<le> score' then ''Good explanation! You covered the key concepts well.''
                       else ''Your answer touches on some points, but could be more comprehensive.''),
           isCorrect = (7 \<le> score'),
           idealAnswer = Some (getIdealAnswer q) \<rparr>)"

definition evaluateTheoretical :: "string \<Rightarrow> Question \<Rightarrow> theoretical_evaluation" where
  "evaluateTheoretical answer q =
     (if answer = [] \<or> length (trim answer) = 0 then
        \<lparr> score = 0,
          feedback = ''No answer provided. Please explain the concept or provide your thoughts.'',
          isCorrect = False, idealAnswer = None \<rparr>
      else if isNonsenseInput answer then
        \<lparr> score = 0,
          feedback = ''I couldn't evaluate that. Could you provide a real answer explaining the concept?'',
          isCorrect = False, idealAnswer = None \<rparr>
      else if length (trim answer) < 10 then
        \<lparr> score = 2,
          feedback = ''Your answer is too brief. Please provide more detailed explanation with examples if possible.'',
          isCorrect = False, idealAnswer = None \<rparr>
      else evaluateByCategory answer q)"

subsection \<open>Behavioral answers\<close>

definition evaluateSTARMethod :: "string \<Rightarrow> Question \<Rightarrow> behavioral_evaluation" where
  "evaluateSTARMethod answer q =
     (let answerLower = toLowerCase answer;
          hasSituation = (includesStr answerLower ''situation'' \<or> includesStr answerLower ''when'' \<or>
                          includesStr answerLower ''time'' \<or> includesStr answerLower ''project'');
          hasTask = (includesStr answerLower ''task'' \<or> includesStr answerLower ''responsible'' \<or>
                     includesStr answerLower ''needed to'' \<or> includesStr answerLower ''had to'');
          hasAction = (includesStr answerLower ''action'' \<or> includesStr answerLower ''did'' \<or>
                       includesStr answerLower ''implemented'' \<or> includesStr answerLower ''decided'');
          hasResult = (includesStr answerLower ''result'' \<or> includesStr answerLower ''outcome'' \<or>
                       includesStr answerLower ''achieved'' \<or> includesStr answerLower ''improved'');
          starElements = (if hasSituation then [''Situation''] else []) @
                         (if hasTask then [''Task''] else []) @
                         (if hasAction then [''Action''] else []) @
                         (if hasResult then [''Result''] else []);
          score4 = (if hasSituation then 2 else 0) + (if hasTask then 2 else 0) +
                   (if hasAction then 3 else 0) + (if hasResult then 3 else (0::rat));
          score' = (if 200 < length answer then score4 + 1 else score4);
          missingElements = filter (\<lambda>e. e \<notin> set starElements) [''Situation'', ''Task'', ''Action'', ''Result''];
          fb = (if 8 \<le> score' then
                  ''Excellent STAR format! You clearly described the situation, task, actions, and results.''
                else if 6 \<le> score' then
                  ''Good structure! Consider adding more detail about: '' @ join missingElements '', '' @ ''.''
                else
                  ''Try using the STAR method: Situation (context), Task (what needed to be done), Action (what you did), Result (outcome). Missing: '' @ join missingElements '', '' @ ''.'')
      in \<lparr> score = min 10 score',
           feedback = fb,
           isCorrect = (7 \<le> score'),
           starAnalysis = Some (''STAR Elements Found: '' @ join starElements '', '' @
                                (if 0 < length missingElements
                                 then ''. Missing: '' @ join missingElements '', '' else [])) \<rparr>)"

definition evaluateBehavioral :: "string \<Rightarrow> Question \<Rightarrow> behavioral_evaluation" where
  "evaluateBehavioral answer q =
     (if answer = [] \<or> length (trim answer) = 0 then
        \<lparr> score = 0,
          feedback = ''No answer provided. Please share a specific example from your experience.'',
          isCorrect = False, starAnalysis = None \<rparr>
      else if isNonsenseInput answer then
        \<lparr> score = 0,
          feedback = ''I couldn't evaluate that. Please provide a real example from your experience.'',
          isCorrect = False, starAnalysis = None \<rparr>
      else evaluateSTARMethod answer q)"

section \<open>JavaScript regular expressions\<close>

text \<open>
  The patterns of \<open>FileUpload\<close> are written in a small regular expression syntax: character
  tests, literals (matched as written or, under the flag \<open>i\<close>, without regard to letter
  case), the empty pattern, \<open>^\<close> under the flag \<open>m\<close>, sequence, alternation, the greedy
  star and numbered capture groups.
\<close>

datatype regex =
    Atom "char \<Rightarrow> bool"
  | Lit string
  | LitI string
  | Eps
  | Bol
  | Seq regex regex
  | Alt regex regex
  | Star regex
  | Cap nat regex

type_synonym captures = "(nat \<times> nat \<times> nat) list"

text \<open>
  \<open>ms r t i c\<close> lists the ways \<open>r\<close> matches in \<open>t\<close> from index \<open>i\<close> with the captures \<open>c\<close>
  made so far, in the order in which the backtracking matcher of the language tries them:
  each way is the index where the match ends and the captures then. An alternation tries
  its left branch first; a star tries one more iteration before stopping, and an iteration
  that consumes nothing is dropped.
\<close>

function ms :: "regex \<Rightarrow> string \<Rightarrow> nat \<Rightarrow> captures \<Rightarrow> (nat \<times> captures) list" where
  "ms (Atom P) t i c = (if i < length t \<and> P (t ! i) then [(i + 1, c)] else [])"
| "ms (Lit w) t i c = (if take (length w) (drop i t) = w then [(i + length w, c)] else [])"
| "ms (LitI w) t i c =
     (if toLowerCase (take (length w) (drop i t)) = toLowerCase w then [(i + length w, c)] else [])"
| "ms Eps t i c = [(i, c)]"
| "ms Bol t i c =
     (if i = 0 \<or> (i \<le> length t \<and> isLineTerminator (t ! (i - 1))) then [(i, c)] else [])"
| "ms (Seq a b) t i c = concat (map (\<lambda>(j, c'). ms b t j c') (ms a t i c))"
| "ms (Alt a b) t i c = ms a t i c @ ms b t i c"
| "ms (Star a) t i c =
     concat (map (\<lambda>(j, c'). if i < j \<and> j \<le> length t then ms (Star a) t j c' else []) (ms a t i c))
     @ [(i, c)]"
| "ms (Cap n a) t i c = map (\<lambda>(j, c'). (j, (n, i, j) # c')) (ms a t i c)"
  by pat_completeness auto
termination
  by (relation "measures [\<lambda>(r, t, i, c). size r, \<lambda>(r, t, i, c). length t - i]") auto

text \<open>\<open>r+\<close> and \<open>r?\<close>\<close>

definition Plus :: "regex \<Rightarrow> regex" where
  "Plus r = Seq r (Star r)"

definition Opt :: "regex \<Rightarrow> regex" where
  "Opt r = Alt r Eps"

fun seqs :: "regex list \<Rightarrow> regex" where
  "seqs [] = Eps"
| "seqs [r] = r"
| "seqs (r # rs) = Seq r (seqs rs)"

fun alts :: "regex list \<Rightarrow> regex" where
  "alts [] = Eps"
| "alts [r] = r"
| "alts (r # rs) = Alt r (alts rs)"

text \<open>
  \<open>text.match(pattern)\<close> for a pattern without the flag \<open>g\<close>: the first way to match from
  the leftmost index that has one; \<open>None\<close> is \<open>null\<close>. A match is the pair of indices of
  \<open>match[0]\<close> and the captures.
\<close>

type_synonym rmatch = "nat \<times> nat \<times> captures"

function scan :: "regex \<Rightarrow> string \<Rightarrow> nat \<Rightarrow> rmatch option" where
  "scan r t i =
     (if length t < i then None
      else (case ms r t i [] of
              [] \<Rightarrow> scan r t (i + 1)
            | (j, c) # _ \<Rightarrow> Some (i, j, c)))"
  by pat_completeness auto
termination
  by (relation "measure (\<lambda>(r, t, i). Suc (length t) - i)") auto

text \<open>The equations of the star and of the scan unfold without end; they are used by hand.\<close>

declare ms.simps [simp del] scan.simps [simp del]

definition matchRegex :: "string \<Rightarrow> regex \<Rightarrow> rmatch option" where
  "matchRegex t r = scan r t 0"

definition substring :: "string \<Rightarrow> nat \<Rightarrow> nat \<Rightarrow> string" where
  "substring t i j = take (j - i) (drop i t)"

text \<open>\<open>match[n]\<close>; \<open>None\<close> is \<open>undefined\<close>, a group that took no part in the match.\<close>

definition group :: "string \<Rightarrow> rmatch \<Rightarrow> nat \<Rightarrow> string option" where
  "group t m n =
     (case m of (i, j, c) \<Rightarrow>
        if n = 0 then Some (substring t i j)
        else map_option (\<lambda>(a, b). substring t a b) (map_of c n))"

text \<open>A pattern is sure to consume a character (used in the proofs only).\<close>

fun consuming :: "regex \<Rightarrow> bool" where
  "consuming (Atom P) = True"
| "consuming (Lit w) = (w \<noteq> [])"
| "consuming (LitI w) = (w \<noteq> [])"
| "consuming Eps = False"
| "consuming Bol = False"
| "consuming (Seq a b) = (consuming a \<or> consuming b)"
| "consuming (Alt a b) = (consuming a \<and> consuming b)"
| "consuming (Star a) = False"
| "consuming (Cap n a) = consuming a"

text \<open>
  A pattern ends in capture group 1 around a pattern that is sure to consume a character
  (used in the proofs only).
\<close>

fun capturing :: "regex \<Rightarrow> bool" where
  "capturing (Cap n b) = (n = 1 \<and> consuming b)"
| "capturing (Seq a b) = capturing b"
| "capturing r = False"

section \<open>Job description analysis (\<open>FileUpload\<close>)\<close>

record ExtractedSkills =
  required :: "string list"
  preferred :: "string list"

definition commonSkills :: "string list" where
  "commonSkills =
     [''JavaScript'', ''Python'', ''Java'', ''React'', ''Node.js'', ''SQL'', ''AWS'', ''Docker'', ''Git'',
      ''TypeScript'', ''Angular'', ''Vue.js'', ''MongoDB'', ''PostgreSQL'', ''Redis'', ''Kubernetes'',
      ''GraphQL'', ''REST API'', ''Microservices'', ''CI/CD'', ''Jenkins'', ''Linux'', ''Agile'',
      ''HTML'', ''CSS'', ''Express.js'', ''Spring Boot'', ''Django'', ''Flask'', ''C++'', ''C#'',
      ''Go'', ''Rust'', ''PHP'', ''Ruby'', ''Swift'', ''Kotlin'', ''Scala'', ''R'', ''MATLAB'']"

text \<open>\<open>s.replace(/[.\s]/g, '')\<close>\<close>

definition removeDotsAndSpaces :: "string \<Rightarrow> string" where
  "removeDotsAndSpaces s = filter (\<lambda>c. \<not> (c = CHR ''.'' \<or> isWhiteSpace c)) s"

text \<open>
  \<open>extractSkillsFromText\<close>. The split point is \<open>Math.max(3, Math.floor(found.length * 0.7))\<close>;
  \<open>found\<close> has at most 40 entries, and for these lengths the floor of the floating point
  product is the floor of the exact product.
\<close>

definition skillFound :: "string \<Rightarrow> string \<Rightarrow> bool" where
  "skillFound textLower skill =
     (includesStr textLower (toLowerCase skill) \<or>
      includesStr textLower (removeDotsAndSpaces (toLowerCase skill)))"

definition extractSkillsFromText :: "string \<Rightarrow> ExtractedSkills" where
  "extractSkillsFromText text =
     (let textLower = toLowerCase text;
          found = filter (skillFound textLower) commonSkills;
          splitPoint = max 3 (nat \<lfloor>rat_of_nat (length found) * (7 / 10)\<rfloor>)
      in \<lparr> required = take splitPoint found, preferred = drop splitPoint found \<rparr>)"

definition extractLanguagesFromText :: "string \<Rightarrow> string list" where
  "extractLanguagesFromText text =
     (let langs = [''JavaScript'', ''Python'', ''Java'', ''C++'', ''C#'', ''TypeScript'', ''Go'', ''Rust'',
                   ''PHP'', ''Ruby'', ''Swift'', ''Kotlin''];
          textLower = toLowerCase text
      in filter (\<lambda>lang. includesStr textLower (toLowerCase lang)) langs)"

definition extractToolsFromText :: "string \<Rightarrow> string list" where
  "extractToolsFromText text =
     (let toolNames = [''Git'', ''Docker'', ''Kubernetes'', ''AWS'', ''Azure'', ''GCP'', ''Jenkins'', ''MongoDB'',
                       ''PostgreSQL'', ''Redis''];
          textLower = toLowerCase text
      in filter (\<lambda>tool. includesStr textLower (toLowerCase tool)) toolNames)"

definition extractSoftSkillsFromText :: "string \<Rightarrow> string list" where
  "extractSoftSkillsFromText text =
     (let names = [''Communication'', ''Teamwork'', ''Leadership'', ''Problem Solving'', ''Time Management'',
                   ''Adaptability''];
          textLower = toLowerCase text
      in filter (\<lambda>name. includesStr textLower (toLowerCase name) \<or> includesStr textLower ''team'' \<or>
                         includesStr textLower ''collaborate'' \<or> includesStr textLower ''communicate'') names)"

definition notNewline :: "char \<Rightarrow> bool" where
  "notNewline c = (\<not> isLineTerminator c)"

text \<open>
  \<open>/(?:position|role|job title|title):\s*([^\n\r]+)/i\<close>,
  \<open>/^([^\n\r]*(?:developer|engineer|analyst|manager|lead|senior|junior)[^\n\r]*)/im\<close> and
  \<open>/hiring\s+(?:for\s+)?([^\n\r]+)/i\<close>
\<close>

definition titlePatterns :: "regex list" where
  "titlePatterns =
     [seqs [alts [LitI ''position'', LitI ''role'', LitI ''job title'', LitI ''title''], Lit '':'',
            Star (Atom isWhiteSpace), Cap 1 (Plus (Atom notNewline))],
      seqs [Bol,
            Cap 1 (seqs [Star (Atom notNewline),
                         alts [LitI ''developer'', LitI ''engineer'', LitI ''analyst'', LitI ''manager'',
                               LitI ''lead'', LitI ''senior'', LitI ''junior''],
                         Star (Atom notNewline)])],
      seqs [LitI ''hiring'', Plus (Atom isWhiteSpace), Opt (seqs [LitI ''for'', Plus (Atom isWhiteSpace)]),
            Cap 1 (Plus (Atom notNewline))]]"

text \<open>\<open>[a-zA-Z\s&]\<close>\<close>

definition companyChar :: "char \<Rightarrow> bool" where
  "companyChar c = (isLowerAZ c \<or> isUpperAZ c \<or> isWhiteSpace c \<or> c = CHR ''&'')"

text \<open>\<open>[A-Z][a-zA-Z\s&]+(?:Inc|LLC|Corp|Ltd|Company)\<close>\<close>

definition companyName :: regex where
  "companyName = seqs [Atom isUpperAZ, Plus (Atom companyChar),
                       alts [Lit ''Inc'', Lit ''LLC'', Lit ''Corp'', Lit ''Ltd'', Lit ''Company'']]"

text \<open>
  \<open>/(?:company|organization|employer):\s*([^\n\r]+)/i\<close>,
  \<open>/(?:at|@)\s+([A-Z][a-zA-Z\s&]+(?:Inc|LLC|Corp|Ltd|Company))/\<close> and
  \<open>/([A-Z][a-zA-Z\s&]+(?:Inc|LLC|Corp|Ltd|Company))/\<close>
\<close>

definition companyPatterns :: "regex list" where
  "companyPatterns =
     [seqs [alts [LitI ''company'', LitI ''organization'', LitI ''employer''], Lit '':'',
            Star (Atom isWhiteSpace), Cap 1 (Plus (Atom notNewline))],
      seqs [alts [Lit ''at'', Lit ''@''], Plus (Atom isWhiteSpace), Cap 1 companyName],
      Cap 1 companyName]"

text \<open>\<open>[\s-]\<close>\<close>

definition spaceOrDash :: "char \<Rightarrow> bool" where
  "spaceOrDash c = (isWhiteSpace c \<or> c = CHR ''-'')"

text \<open>
  \<open>/(\d+)[\s-]*(?:to[\s-]*(\d+))?\s*years?\s*(?:of\s*)?experience/i\<close>,
  \<open>/(\d+)\+?\s*years?\s*(?:of\s*)?experience/i\<close> and
  \<open>/experience:\s*(\d+[\s-]*(?:to[\s-]*\d+)?\s*years?)/i\<close>
\<close>

definition expPatterns :: "regex list" where
  "expPatterns =
     [seqs [Cap 1 (Plus (Atom isDigit)), Star (Atom spaceOrDash),
            Opt (seqs [LitI ''to'', Star (Atom spaceOrDash), Cap 2 (Plus (Atom isDigit))]),
            Star (Atom isWhiteSpace), LitI ''year'', Opt (LitI ''s''), Star (Atom isWhiteSpace),
            Opt (seqs [LitI ''of'', Star (Atom isWhiteSpace)]), LitI ''experience''],
      seqs [Cap 1 (Plus (Atom isDigit)), Opt (Lit ''+''), Star (Atom isWhiteSpace),
            LitI ''year'', Opt (LitI ''s''), Star (Atom isWhiteSpace),
            Opt (seqs [LitI ''of'', Star (Atom isWhiteSpace)]), LitI ''experience''],
      seqs [LitI ''experience'', Lit '':'', Star (Atom isWhiteSpace),
            Cap 1 (seqs [Plus (Atom isDigit), Star (Atom spaceOrDash),
                         Opt (seqs [LitI ''to'', Star (Atom spaceOrDash), Plus (Atom isDigit)]),
                         Star (Atom isWhiteSpace), LitI ''year'', Opt (LitI ''s'')])]]"

text \<open>
  The loop of \<open>extractTitleFromText\<close> and \<open>extractCompanyFromText\<close>:
  \<open>for (const pattern of patterns) { const match = text.match(pattern);
  if (match && match[1]) return match[1].trim(); }\<close>; \<open>None\<close> when the loop falls through.
  A capture that is \<open>undefined\<close> or empty is falsy.
\<close>

fun firstTrimmedCapture :: "regex list \<Rightarrow> string \<Rightarrow> string option" where
  "firstTrimmedCapture [] text = None"
| "firstTrimmedCapture (pattern # patterns) text =
     (case matchRegex text pattern of
        None \<Rightarrow> firstTrimmedCapture patterns text
      | Some m \<Rightarrow>
          (case group text m 1 of
             None \<Rightarrow> firstTrimmedCapture patterns text
           | Some g \<Rightarrow> if g \<noteq> [] then Some (trim g) else firstTrimmedCapture patterns text))"

definition extractTitleFromText :: "string \<Rightarrow> string" where
  "extractTitleFromText text =
     (case firstTrimmedCapture titlePatterns text of
        Some t \<Rightarrow> t
      | None \<Rightarrow> ''Software Developer'')"

definition extractCompanyFromText :: "string \<Rightarrow> string" where
  "extractCompanyFromText text =
     (case firstTrimmedCapture companyPatterns text of
        Some t \<Rightarrow> t
      | None \<Rightarrow> ''TechCorp Inc.'')"

text \<open>The loop of \<open>extractExperienceFromText\<close> returns \<open>match[0]\<close>.\<close>

fun firstWholeMatch :: "regex list \<Rightarrow> string \<Rightarrow> string option" where
  "firstWholeMatch [] text = None"
| "firstWholeMatch (pattern # patterns) text =
     (case matchRegex text pattern of
        None \<Rightarrow> firstWholeMatch patterns text
      | Some m \<Rightarrow>
          (case group text m 1 of
             None \<Rightarrow> firstWholeMatch patterns text
           | Some g \<Rightarrow> if g \<noteq> [] then group text m 0 else firstWholeMatch patterns text))"

definition extractExperienceFromText :: "string \<Rightarrow> string" where
  "extractExperienceFromText text =
     (case firstWholeMatch expPatterns text of
        Some t \<Rightarrow> t
      | None \<Rightarrow> ''2-5 years'')"

text \<open>
  \<open>parseJobDescription\<close> returns a promise: \<open>Inl\<close> is a rejection with the message of its
  \<open>Error\<close>, \<open>Inr\<close> the resolved value. Nothing inside its \<open>try\<close> throws, so the rejection
  of the \<open>catch\<close> branch never happens.
\<close>

definition parseJobDescription :: "string \<Rightarrow> string + JobDescription" where
  "parseJobDescription text =
     (if text = [] \<or> length (trim text) < 50 then
        Inl ''Job description too short (minimum 50 characters)''
      else
        (let extractedSkills = extractSkillsFromText text;
             extractedLanguages = extractLanguagesFromText text;
             extractedTools = extractToolsFromText text;
             extractedSoftSkills = extractSoftSkillsFromText text;
             extractedTitle = extractTitleFromText text;
             extractedCompany = extractCompanyFromText text
         in if length (required extractedSkills) = 0 then
              Inl ''No technical skills found. Please include programming languages and tools.''
            else
              Inr \<lparr> title = extractedTitle,
                    company = extractedCompany,
                    requiredSkills = required extractedSkills,
                    preferredSkills = preferred extractedSkills,
                    description = text,
                    experience = extractExperienceFromText text,
                    languages = extractedLanguages,
                    tools = extractedTools,
                    softSkills = extractedSoftSkills \<rparr>))"

text \<open>
  The sentences of the specification about the title and the company: the first pattern
  that matches, whatever it captured, and of that match the first capture group.
\<close>

fun firstMatching :: "regex list \<Rightarrow> string \<Rightarrow> rmatch option" where
  "firstMatching [] text = None"
| "firstMatching (pattern # patterns) text =
     (case matchRegex text pattern of
        None \<Rightarrow> firstMatching patterns text
      | Some m \<Rightarrow> Some m)"

definition trimmedFirstCapture :: "regex list \<Rightarrow> string \<Rightarrow> string \<Rightarrow> string" where
  "trimmedFirstCapture patterns fallback text =
     (case firstMatching patterns text of
        None \<Rightarrow> fallback
      | Some m \<Rightarrow> (case group text m 1 of None \<Rightarrow> [] | Some g \<Rightarrow> trim g))"

section \<open>Question generation (\<open>SkillAnalysis\<close>)\<close>

text \<open>
  The three coding questions built for one language; \<open>questionId\<close> is the counter before
  the first \<open>questionId++\<close>. All three ids are drawn, also when only two questions are kept.
\<close>

definition codingQuestions :: "string \<Rightarrow> nat \<Rightarrow> Question list" where
  "codingQuestions lang questionId =
     [\<lparr> qid = natToString questionId, type = coding,
        question = ''Implement a function to reverse a string without using built-in reverse methods in '' @ lang,
        difficulty = easy, language = Some (toLowerCase lang), expectedAnswer = None, hints = None,
        category = ''Data Structures'', points = 10 \<rparr>,
      \<lparr> qid = natToString (questionId + 1), type = coding,
        question = ''Write a function to find the second largest number in an array using '' @ lang,
        difficulty = medium, language = Some (toLowerCase lang), expectedAnswer = None, hints = None,
        category = ''Algorithms'', points = 15 \<rparr>,
      \<lparr> qid = natToString (questionId + 2), type = coding,
        question = ''Implement a binary search algorithm in '' @ lang,
        difficulty = medium, language = Some (toLowerCase lang), expectedAnswer = None, hints = None,
        category = ''Search Algorithms'', points = 20 \<rparr>]"

text \<open>
  \<open>codingLanguages.forEach((language, index) => ...)\<close>: the questions pushed from position
  \<open>index\<close> on, and the counter after the loop.
\<close>

fun codingLoop :: "string list \<Rightarrow> nat \<Rightarrow> nat \<Rightarrow> Question list \<times> nat" where
  "codingLoop [] index questionId = ([], questionId)"
| "codingLoop (lang # langs) index questionId =
     (let pushed = take (if index = 0 then 3 else 2) (codingQuestions lang questionId);
          (rest, questionId') = codingLoop langs (index + 1) (questionId + 3)
      in (pushed @ rest, questionId'))"

text \<open>An object literal of the question lists that has no \<open>language\<close>.\<close>

definition plainQuestion :: "nat \<Rightarrow> QuestionType \<Rightarrow> string \<Rightarrow> Difficulty \<Rightarrow> string \<Rightarrow> nat \<Rightarrow> Question" where
  "plainQuestion questionId t text d cat pts =
     \<lparr> qid = natToString questionId, type = t, question = text, difficulty = d, language = None,
       expectedAnswer = None, hints = None, category = cat, points = pts \<rparr>"

definition sqlQuestions :: "nat \<Rightarrow> Question list" where
  "sqlQuestions questionId =
     [plainQuestion questionId sql ''Write a query to find the second highest salary from an Employee table''
        medium ''Database Queries'' 15,
      plainQuestion (questionId + 1) sql ''Create a query to find employees who earn more than their managers''
        hard ''Complex Joins'' 25,
      plainQuestion (questionId + 2) sql ''Write a query to calculate running totals using window functions''
        hard ''Window Functions'' 25,
      plainQuestion (questionId + 3) sql ''Design a query to find duplicate records in a table''
        medium ''Data Analysis'' 15,
      plainQuestion (questionId + 4) sql ''Write a query to pivot data from rows to columns''
        hard ''Data Transformation'' 25]"

definition theoreticalQuestions :: "nat \<Rightarrow> Question list" where
  "theoreticalQuestions questionId =
     [plainQuestion questionId theoretical ''Explain the difference between REST and GraphQL APIs''
        medium ''API Design'' 15,
      plainQuestion (questionId + 1) theoretical ''What are the SOLID principles in object-oriented programming?''
        medium ''OOP Concepts'' 15,
      plainQuestion (questionId + 2) theoretical ''Explain database normalization and its benefits''
        medium ''Database Design'' 15,
      plainQuestion (questionId + 3) theoretical ''What is the difference between synchronous and asynchronous programming?''
        easy ''Programming Concepts'' 10,
      plainQuestion (questionId + 4) theoretical ''Explain microservices architecture and its advantages''
        hard ''System Design'' 25,
      plainQuestion (questionId + 5) theoretical ''What are design patterns and give examples of commonly used ones?''
        medium ''Design Patterns'' 15,
      plainQuestion (questionId + 6) theoretical ''Explain the concept of Big O notation and time complexity''
        medium ''Algorithm Analysis'' 15,
      plainQuestion (questionId + 7) theoretical ''What is containerization and how does Docker work?''
        medium ''DevOps'' 15,
      plainQuestion (questionId + 8) theoretical ''Explain the CAP theorem in distributed systems''
        hard ''Distributed Systems'' 25,
      plainQuestion (questionId + 9) theoretical ''What are the principles of clean code?''
        easy ''Code Quality'' 10]"

definition behavioralQuestions :: "nat \<Rightarrow> Question list" where
  "behavioralQuestions questionId =
     [plainQuestion questionId behavioral ''Tell me about a time when you had to learn a new technology quickly for a project''
        medium ''Learning Agility'' 15,
      plainQuestion (questionId + 1) behavioral ''Describe a situation where you had to work with a difficult team member''
        medium ''Teamwork'' 15,
      plainQuestion (questionId + 2) behavioral ''Tell me about a time when you made a mistake in your code. How did you handle it?''
        medium ''Problem Solving'' 15,
      plainQuestion (questionId + 3) behavioral ''Describe a project you're most proud of and your role in it''
        easy ''Achievement'' 10,
      plainQuestion (questionId + 4) behavioral ''How do you handle tight deadlines and pressure?''
        medium ''Stress Management'' 15]"

text \<open>
  \<open>generateQuestions\<close> reads the job description of the store, \<open>None\<close> for \<open>null\<close>. The other
  operand of its guard, the component's \<open>skillGaps\<close> array, is never falsy; nor is the
  \<open>languages\<close> array, so the fallback \<open>['JavaScript', 'Python']\<close> is never taken.
\<close>

definition generateQuestions :: "JobDescription option \<Rightarrow> Question list" where
  "generateQuestions jobDescription =
     (case jobDescription of
        None \<Rightarrow> []
      | Some jd \<Rightarrow>
          (let (codingQs, id1) = codingLoop (languages jd) 0 1;
               (sqlQs, id2) =
                 (if list_ex (\<lambda>skill. includesStr (toLowerCase skill) ''sql'') (requiredSkills jd)
                  then (sqlQuestions id1, id1 + 5) else ([], id1))
           in codingQs @ sqlQs @ theoreticalQuestions id2 @ behavioralQuestions (id2 + 10)))"

section \<open>The interview store (\<open>useInterviewStore\<close>)\<close>

record Answer =
  questionId :: string
  userAnswer :: string
  answerCode :: "string option"
  answerScore :: rat
  answerFeedback :: string
  timeSpent :: rat
  attempts :: nat
  answerIsCorrect :: "bool option"
  aiExplanation :: "string option"

record Badge =
  badgeId :: string
  badgeName :: string
  badgeDescription :: string
  icon :: string
  earned :: bool
  earnedAt :: "nat option"
  xpValue :: rat

record VoiceSettings =
  isEnabled :: bool
  voiceLanguage :: string
  rate :: rat
  pitch :: rat
  volume :: rat

record AccessibilitySettings =
  highContrast :: bool
  largeText :: bool
  screenReader :: bool
  reducedMotion :: bool

record UserProgress =
  totalXP :: int
  level :: int
  completedInterviews :: int
  skillLevels :: "(string \<times> rat) list"
  achievements :: "Badge list"

datatype GapStatus = match | partial | missing

record SkillGap =
  skill :: string
  resumeLevel :: rat
  requiredLevel :: rat
  gap :: rat
  status :: GapStatus

record InterviewSession =
  sessionId :: string
  userId :: string
  questions :: "Question list"
  answers :: "Answer list"
  startTime :: nat
  endTime :: "nat option"
  overallScore :: rat
  skillScores :: "(string \<times> rat) list"
  sessionQuestionIndex :: nat
  totalQuestions :: nat
  badges :: "Badge list"
  xpEarned :: rat

datatype Phase = PhaseSetup | PhaseCoding | PhaseSql | PhaseTheoretical | PhaseBehavioral | PhaseComplete

datatype View = upload | analysis | interview | results | settings

record InterviewStore =
  jobDescription :: "JobDescription option"
  skillGaps :: "SkillGap list"
  userProgress :: UserProgress
  currentSession :: "InterviewSession option"
  currentQuestion :: "Question option"
  currentQuestionIndex :: nat
  isInterviewActive :: bool
  interviewPhase :: Phase
  isDarkMode :: bool
  currentView :: View
  isLoading :: bool
  error :: "string option"
  voiceSettings :: VoiceSettings
  accessibilitySettings :: AccessibilitySettings
  isVoiceEnabled :: bool
  isSpeaking :: bool

text \<open>
  The phase chosen from a question type:
  \<open>t === 'coding' ? 'coding' : t === 'sql' ? 'sql' : t === 'theoretical' ? 'theoretical' : 'behavioral'\<close>.
\<close>

fun phaseOf :: "QuestionType \<Rightarrow> Phase" where
  "phaseOf coding = PhaseCoding"
| "phaseOf sql = PhaseSql"
| "phaseOf theoretical = PhaseTheoretical"
| "phaseOf behavioral = PhaseBehavioral"

text \<open>
  \<open>startInterview\<close>. The clock is read twice, by \<open>Date.now()\<close> for the session id and by
  \<open>new Date()\<close> for the start time; both readings are parameters. An empty list gives
  \<open>questions[0] || null\<close>, that is \<open>null\<close>, and the phase \<open>behavioral\<close>.
\<close>

definition startInterview :: "nat \<Rightarrow> nat \<Rightarrow> Question list \<Rightarrow> InterviewStore \<Rightarrow> InterviewStore" where
  "startInterview now date qs s =
     (let session = \<lparr> sessionId = natToString now, userId = ''user'', questions = qs, answers = [],
                       startTime = date, endTime = None, overallScore = 0, skillScores = [],
                       sessionQuestionIndex = 0, totalQuestions = length qs, badges = [],
                       xpEarned = 0 \<rparr>
      in s\<lparr> currentSession := Some session,
            currentQuestion := (case qs of [] \<Rightarrow> None | q # _ \<Rightarrow> Some q),
            currentQuestionIndex := 0,
            isInterviewActive := True,
            currentView := interview,
            interviewPhase := (case qs of [] \<Rightarrow> PhaseBehavioral | q # _ \<Rightarrow> phaseOf (type q)),
            error := None \<rparr>)"

definition addXP :: "int \<Rightarrow> InterviewStore \<Rightarrow> InterviewStore" where
  "addXP amount s =
     (let newTotalXP = totalXP (userProgress s) + amount;
          newLevel = newTotalXP div 1000 + 1
      in s\<lparr> userProgress := (userProgress s)\<lparr> totalXP := newTotalXP, level := newLevel \<rparr> \<rparr>)"

definition submitAnswer :: "Answer \<Rightarrow> InterviewStore \<Rightarrow> InterviewStore" where
  "submitAnswer answer s =
     (case currentSession s of
        None \<Rightarrow> s
      | Some session \<Rightarrow>
          (let updatedAnswers = answers session @ [answer];
               updatedSession = session\<lparr> answers := updatedAnswers \<rparr>;
               xpGained = \<lfloor>answerScore answer * 10\<rfloor>
           in (addXP xpGained s)\<lparr> currentSession := Some updatedSession, error := None \<rparr>))"

definition endInterview :: "nat \<Rightarrow> InterviewStore \<Rightarrow> InterviewStore" where
  "endInterview date s =
     (case currentSession s of
        None \<Rightarrow> s
      | Some session \<Rightarrow>
          (let totalScore = (if 0 < length (answers session)
                             then sum_list (map answerScore (answers session)) / rat_of_nat (length (answers session))
                             else 0);
               updatedSession = session\<lparr> endTime := Some date, overallScore := totalScore \<rparr>;
               updatedProgress = (userProgress s)\<lparr> completedInterviews := completedInterviews (userProgress s) + 1 \<rparr>
           in s\<lparr> currentSession := Some updatedSession,
                 isInterviewActive := False,
                 currentView := results,
                 interviewPhase := PhaseComplete,
                 userProgress := updatedProgress,
                 error := None \<rparr>))"

text \<open>\<open>nextQuestion\<close>; \<open>date\<close> is the clock reading of \<open>endInterview\<close>, used when no question is left.\<close>

definition nextQuestion :: "nat \<Rightarrow> InterviewStore \<Rightarrow> InterviewStore" where
  "nextQuestion date s =
     (case currentSession s of
        None \<Rightarrow> s
      | Some session \<Rightarrow>
          (let nextIndex = currentQuestionIndex s + 1
           in if nextIndex < length (questions session) then
                (let next = questions session ! nextIndex
                 in s\<lparr> currentQuestionIndex := nextIndex,
                       currentQuestion := Some next,
                       interviewPhase := phaseOf (type next),
                       error := None \<rparr>)
              else endInterview date s))"

text \<open>
  \<open>retryQuestion\<close>. \<open>questions[i]?.id\<close> is \<open>undefined\<close> when the index is out of range, and
  then no answer is removed.
\<close>

definition retryQuestion :: "InterviewStore \<Rightarrow> InterviewStore" where
  "retryQuestion s =
     (case currentSession s of
        None \<Rightarrow> s
      | Some session \<Rightarrow>
          (let currentQuestionId = (if currentQuestionIndex s < length (questions session)
                                    then Some (qid (questions session ! currentQuestionIndex s))
                                    else None);
               updatedAnswers = filter (\<lambda>answer. Some (questionId answer) \<noteq> currentQuestionId) (answers session)
           in s\<lparr> currentSession := Some (session\<lparr> answers := updatedAnswers \<rparr>), error := None \<rparr>))"

text \<open>The user's moves during an interview, and a run of them.\<close>

datatype Action = SubmitAnswer Answer | RetryQuestion | NextQuestion nat

fun step :: "Action \<Rightarrow> InterviewStore \<Rightarrow> InterviewStore" where
  "step (SubmitAnswer a) s = submitAnswer a s"
| "step RetryQuestion s = retryQuestion s"
| "step (NextQuestion date) s = nextQuestion date s"

fun run :: "Action list \<Rightarrow> InterviewStore \<Rightarrow> InterviewStore" where
  "run [] s = s"
| "run (a # as) s = run as (step a s)"

text \<open>The \<open>partialize\<close> option of \<open>persist\<close>: the object written to storage.\<close>

record PersistedState =
  persistedIsDarkMode :: bool
  persistedVoiceSettings :: VoiceSettings
  persistedAccessibilitySettings :: AccessibilitySettings
  persistedUserProgress :: UserProgress

definition partialize :: "InterviewStore \<Rightarrow> PersistedState" where
  "partialize state =
     \<lparr> persistedIsDarkMode = isDarkMode state,
       persistedVoiceSettings = voiceSettings state,
       persistedAccessibilitySettings = accessibilitySettings state,
       persistedUserProgress = userProgress state \<rparr>"

text \<open>The initial state of the store.\<close>

definition initialState :: InterviewStore where
  "initialState =
     \<lparr> jobDescription = None,
       skillGaps = [],
       userProgress = \<lparr> totalXP = 0, level = 1, completedInterviews = 0, skillLevels = [],
                        achievements = [] \<rparr>,
       currentSession = None,
       currentQuestion = None,
       currentQuestionIndex = 0,
       isInterviewActive = False,
       interviewPhase = PhaseSetup,
       isDarkMode = False,
       currentView = upload,
       isLoading = False,
       error = None,
       voiceSettings = \<lparr> isEnabled = True, voiceLanguage = ''en-US'', rate = 1, pitch = 1,
                         volume = 4 / 5 \<rparr>,
       accessibilitySettings = \<lparr> highContrast = False, largeText = False, screenReader = False,
                                 reducedMotion = False \<rparr>,
       isVoiceEnabled = True,
       isSpeaking = False \<rparr>"

text \<open>
  The invariant behind the index property (used in the proofs only): a session with
  questions exists, and while the interview is active the index is in range and the current
  question is the question at the index.
\<close>

definition interviewInv :: "InterviewStore \<Rightarrow> bool" where
  "interviewInv s =
     (case currentSession s of
        None \<Rightarrow> False
      | Some session \<Rightarrow>
          questions session \<noteq> [] \<and>
          (if isInterviewActive s
           then currentQuestionIndex s < length (questions session) \<and>
                currentQuestion s = Some (questions session ! currentQuestionIndex s)
           else True))"

section \<open>Properties\<close>

subsection \<open>Strings\<close>

lemma includes_sublist: "includesStr s p \<longleftrightarrow> sublist p s"
  by (induction s) (auto simp: sublist_Cons_right)

lemma lowerChar_ws: "isWhiteSpace c \<Longrightarrow> lowerChar c = c"
  by (auto simp: isWhiteSpace_def lowerChar_def Let_def)

lemma mem_dropWhile: "c \<in> set s \<Longrightarrow> \<not> P c \<Longrightarrow> c \<in> set (dropWhile P s)"
  by (induction s) auto

lemma trim_nonblank:
  assumes "c \<in> set s" and "\<not> isWhiteSpace c"
  shows "trim s \<noteq> []"
proof -
  from assms have "c \<in> set (rev (dropWhile isWhiteSpace s))"
    by (simp add: mem_dropWhile)
  then have "c \<in> set (dropWhile isWhiteSpace (rev (dropWhile isWhiteSpace s)))"
    using assms(2) by (rule mem_dropWhile)
  then have "dropWhile isWhiteSpace (rev (dropWhile isWhiteSpace s)) \<noteq> []"
    by (metis empty_iff empty_set)
  then show ?thesis
    by (simp only: trim_def rev_is_Nil_conv not_False_eq_True)
qed

lemma includes_lower_nonblank:
  assumes "includesStr (toLowerCase s) (w # ws)" and "\<not> isWhiteSpace w"
  shows "s \<noteq> [] \<and> length (trim s) \<noteq> 0"
proof -
  from assms(1) have "sublist (w # ws) (map lowerChar s)"
    by (simp add: includes_sublist toLowerCase_def)
  then have "set (w # ws) \<subseteq> set (map lowerChar s)"
    by (rule set_mono_sublist)
  then obtain c where c: "c \<in> set s" "lowerChar c = w"
    by auto
  with assms(2) have "\<not> isWhiteSpace c"
    using lowerChar_ws by fastforce
  with c(1) have "trim s \<noteq> []"
    by (rule trim_nonblank)
  with c(1) show ?thesis by auto
qed

lemma join_Cons_prefix: "prefix x (join (x # xs) sep)"
  by (cases xs) simp_all

subsection \<open>Scores stay between 0 and 10\<close>

lemma min10_range: "0 \<le> x \<Longrightarrow> 0 \<le> min 10 x \<and> min 10 x \<le> (10::rat)"
  by simp

lemma if_nonneg: "0 \<le> a \<Longrightarrow> 0 \<le> b \<Longrightarrow> 0 \<le> (if c then a else (b::rat))"
  by simp

lemma snd_if_nonneg: "0 \<le> snd p \<Longrightarrow> 0 \<le> snd q \<Longrightarrow> 0 \<le> (snd (if c then p else q) :: rat)"
  by simp

lemma snd_pair_nonneg: "0 \<le> b \<Longrightarrow> 0 \<le> (snd (a, b) :: rat)"
  by simp

lemma fst_if_nonneg: "0 \<le> fst p \<Longrightarrow> 0 \<le> fst q \<Longrightarrow> 0 \<le> (fst (if c then p else q) :: rat)"
  by simp

lemma fst_pair_nonneg: "0 \<le> a \<Longrightarrow> 0 \<le> (fst (a, b) :: rat)"
  by simp

lemma max2_nonneg: "0 \<le> max (2::rat) x"
  by simp

lemma min8_nonneg: "0 \<le> x \<Longrightarrow> 0 \<le> min (8::rat) x"
  by simp

lemmas nonneg_intros = if_nonneg snd_if_nonneg snd_pair_nonneg fst_if_nonneg fst_pair_nonneg
  add_nonneg_nonneg max.cobounded1 max2_nonneg min8_nonneg mult_nonneg_nonneg of_nat_0_le_iff

lemma evaluateJavaScript_score:
  "0 \<le> score (evaluateJavaScript parses code q) \<and> score (evaluateJavaScript parses code q) \<le> 10"
  unfolding evaluateJavaScript_def Let_def case_prod_unfold evaluation.select_convs
  by (rule min10_range) (intro nonneg_intros; simp)

lemma evaluatePython_score:
  "0 \<le> score (evaluatePython code q) \<and> score (evaluatePython code q) \<le> 10"
  unfolding evaluatePython_def Let_def case_prod_unfold evaluation.select_convs
  by (rule min10_range) (intro nonneg_intros; simp)

lemma evaluateSQL_score:
  "0 \<le> score (evaluateSQL code q) \<and> score (evaluateSQL code q) \<le> 10"
  unfolding evaluateSQL_def Let_def case_prod_unfold evaluation.select_convs
  by (rule min10_range) (intro nonneg_intros; simp)

lemma evaluateGenericCode_score:
  "0 \<le> score (evaluateGenericCode code q) \<and> score (evaluateGenericCode code q) \<le> 10"
  unfolding evaluateGenericCode_def Let_def case_prod_unfold evaluation.select_convs
  by (rule min10_range) (intro nonneg_intros; simp)

lemma evaluateByCategory_score:
  "0 \<le> score (evaluateByCategory answer q) \<and> score (evaluateByCategory answer q) \<le> 10"
  unfolding evaluateByCategory_def Let_def case_prod_unfold evaluation.select_convs
  by (rule min10_range) (intro nonneg_intros; simp)

lemma evaluateSTARMethod_score:
  "0 \<le> score (evaluateSTARMethod answer q) \<and> score (evaluateSTARMethod answer q) \<le> 10"
  unfolding evaluateSTARMethod_def Let_def evaluation.select_convs
  by (rule min10_range) (intro nonneg_intros; simp)

text \<open>
  C9. Every result that \<open>evaluateCode\<close>, \<open>evaluateTheoretical\<close> or \<open>evaluateBehavioral\<close>
  returns has a score between 0 and 10, for every input string, every question and every
  verdict of the JavaScript engine.
\<close>

theorem evaluators_score_in_range:
  "(evaluateCode parses code q = Inr r \<longrightarrow> 0 \<le> score r \<and> score r \<le> 10) \<and>
   0 \<le> score (evaluateTheoretical answer q) \<and> score (evaluateTheoretical answer q) \<le> 10 \<and>
   0 \<le> score (evaluateBehavioral answer q) \<and> score (evaluateBehavioral answer q) \<le> 10"
proof -
  have c: "evaluateCode parses code q = Inr r \<Longrightarrow> 0 \<le> score r \<and> score r \<le> 10"
    unfolding evaluateCode_def Let_def
    using evaluateJavaScript_score [of parses code q] evaluatePython_score [of code q]
      evaluateSQL_score [of code q] evaluateGenericCode_score [of code q]
    by (auto split: if_splits)
  have t: "0 \<le> score (evaluateTheoretical answer q) \<and> score (evaluateTheoretical answer q) \<le> 10"
    unfolding evaluateTheoretical_def
    using evaluateByCategory_score [of answer q] by simp
  have b: "0 \<le> score (evaluateBehavioral answer q) \<and> score (evaluateBehavioral answer q) \<le> 10"
    unfolding evaluateBehavioral_def
    using evaluateSTARMethod_score [of answer q] by simp
  from c t b show ?thesis by blast
qed

theorem evaluators_score_in_range_witness:
  "\<exists>r. evaluateCode (\<lambda>c. True) ''let x = 1;''
          \<lparr> qid = ''3'', type = coding, question = ''Implement a binary search algorithm in JavaScript'',
            difficulty = medium, language = Some ''javascript'', expectedAnswer = None, hints = None,
            category = ''Search Algorithms'', points = 20 \<rparr> = Inr r \<and>
       0 \<le> score r \<and> score r \<le> 10"
proof -
  let ?q = "\<lparr> qid = ''3'', type = coding, question = ''Implement a binary search algorithm in JavaScript'',
            difficulty = medium, language = Some ''javascript'', expectedAnswer = None, hints = None,
            category = ''Search Algorithms'', points = 20 \<rparr>"
  have h: "evaluateCode (\<lambda>c. True) ''let x = 1;'' ?q = Inr (evaluateJavaScript (\<lambda>c. True) ''let x = 1;'' ?q)"
    by code_simp
  from evaluators_score_in_range [of "\<lambda>c. True" "''let x = 1;''" ?q "evaluateJavaScript (\<lambda>c. True) ''let x = 1;'' ?q"] h
  show ?thesis by blast
qed

subsection \<open>The language dispatch of \<open>evaluateCode\<close>\<close>

text \<open>
  C4. The claim is that \<open>evaluateCode\<close> returns a result for every language value. On a
  question whose language is \<open>java\<close> (in any letter case) and a submission that passes the
  blank and nonsense checks, the dispatch reaches the missing \<open>evaluateJava\<close> and the call
  throws a \<open>TypeError\<close> instead of returning.
\<close>

theorem evaluateCode_java_throws:
  assumes "code \<noteq> []" and "length (trim code) \<noteq> 0" and "\<not> isNonsenseInput code"
    and "language q = Some l" and "toLowerCase l = ''java''"
  shows "evaluateCode parses code q = Inl (TypeError ''this.evaluateJava is not a function'')"
  using assms by (simp add: evaluateCode_def)

theorem evaluateCode_java_throws_witness:
  "evaluateCode (\<lambda>c. True) ''String r(String s) { return s; }''
     \<lparr> qid = ''1'', type = coding,
       question = ''Implement a function to reverse a string without using built-in reverse methods in Java'',
       difficulty = easy, language = Some ''java'', expectedAnswer = None, hints = None,
       category = ''Data Structures'', points = 10 \<rparr>
   = Inl (TypeError ''this.evaluateJava is not a function'')"
proof -
  have h1: "''String r(String s) { return s; }'' \<noteq> []" by simp
  have h2: "length (trim ''String r(String s) { return s; }'') \<noteq> 0" by code_simp
  have h3: "\<not> isNonsenseInput ''String r(String s) { return s; }''" by code_simp
  have h5: "toLowerCase ''java'' = ''java''" by code_simp
  show ?thesis
    by (rule evaluateCode_java_throws [OF h1 h2 h3 _ h5]) simp
qed

subsection \<open>Behavioral answers that mention the situation\<close>

lemma s_not_ws: "\<not> isWhiteSpace CHR ''s''"
  by code_simp

lemma star_score_bound:
  "2 \<le> min 10 (if l then (2 + (if b then 2 else 0) + (if c then 3 else 0) + (if d then 3 else (0::rat))) + 1
                else 2 + (if b then 2 else 0) + (if c then 3 else 0) + (if d then 3 else (0::rat)))"
  by simp

lemma star_prefix:
  "prefix ''STAR Elements Found: Situation''
     (''STAR Elements Found: '' @ join ([''Situation''] @ xs) sep @ rest)"
proof -
  obtain t where "join (''Situation'' # xs) sep = ''Situation'' @ t"
    using join_Cons_prefix [of "''Situation''" xs sep] by (auto simp: prefix_def)
  then have "''STAR Elements Found: '' @ join ([''Situation''] @ xs) sep @ rest
             = ''STAR Elements Found: Situation'' @ (t @ rest)"
    by simp
  then show ?thesis
    by (metis prefixI)
qed

lemma evaluateSTARMethod_situation:
  assumes "includesStr (toLowerCase answer) ''situation''"
  shows "2 \<le> score (evaluateSTARMethod answer q)"
    and "\<exists>s. starAnalysis (evaluateSTARMethod answer q) = Some s \<and>
             prefix ''STAR Elements Found: Situation'' s"
proof -
  show "2 \<le> score (evaluateSTARMethod answer q)"
    unfolding evaluateSTARMethod_def Let_def evaluation.select_convs
    by (simp only: assms simp_thms if_True) (rule star_score_bound)
  show "\<exists>s. starAnalysis (evaluateSTARMethod answer q) = Some s \<and>
            prefix ''STAR Elements Found: Situation'' s"
    unfolding evaluateSTARMethod_def Let_def behavioral_evaluation.select_convs
    apply (simp only: assms simp_thms if_True)
    apply (rule exI, rule conjI, rule refl)
    apply (rule star_prefix)
    done
qed

text \<open>
  C2, as the code has it. The nonsense filter works on the answer with all white space
  removed and lower-cased. When that form has no character five times in a row, contains
  none of the mash substrings and has a character outside a-z, an answer that mentions
  \<open>situation\<close> in any letter case scores at least 2 and its STAR analysis starts with the
  found element \<open>Situation\<close>.
\<close>

theorem evaluateBehavioral_situation:
  assumes "\<not> repeated5 (cleaned answer)"
    and "\<not> list_ex (\<lambda>p. includesStr (cleaned answer) p) mashPatterns"
    and "\<not> list_all isLowerAZ (cleaned answer)"
    and "includesStr (toLowerCase answer) ''situation''"
  shows "2 \<le> score (evaluateBehavioral answer q) \<and>
         (\<exists>s. starAnalysis (evaluateBehavioral answer q) = Some s \<and>
              prefix ''STAR Elements Found: Situation'' s)"
proof -
  have nb: "answer \<noteq> [] \<and> length (trim answer) \<noteq> 0"
    using assms(4) s_not_ws by (rule includes_lower_nonblank)
  have nn: "\<not> isNonsenseInput answer"
    using assms(1,2,3) by (simp add: isNonsenseInput_def Let_def onlyLetters3_def)
  have "evaluateBehavioral answer q = evaluateSTARMethod answer q"
    using nb nn by (simp add: evaluateBehavioral_def)
  with evaluateSTARMethod_situation [OF assms(4), of q] show ?thesis
    by simp
qed

theorem evaluateBehavioral_situation_witness:
  "2 \<le> score (evaluateBehavioral ''In that situation, I led the team.''
            \<lparr> qid = ''20'', type = behavioral,
              question = ''Describe a situation where you had to work with a difficult team member'',
              difficulty = medium, language = None, expectedAnswer = None, hints = None,
              category = ''Teamwork'', points = 15 \<rparr>) \<and>
   (\<exists>s. starAnalysis (evaluateBehavioral ''In that situation, I led the team.''
            \<lparr> qid = ''20'', type = behavioral,
              question = ''Describe a situation where you had to work with a difficult team member'',
              difficulty = medium, language = None, expectedAnswer = None, hints = None,
              category = ''Teamwork'', points = 15 \<rparr>) = Some s \<and>
        prefix ''STAR Elements Found: Situation'' s)"
proof -
  have h1: "\<not> repeated5 (cleaned ''In that situation, I led the team.'')"
    by code_simp
  have h2: "\<not> list_ex (\<lambda>p. includesStr (cleaned ''In that situation, I led the team.'') p) mashPatterns"
    by code_simp
  have h3: "\<not> list_all isLowerAZ (cleaned ''In that situation, I led the team.'')"
    by code_simp
  have h4: "includesStr (toLowerCase ''In that situation, I led the team.'') ''situation''"
    by code_simp
  show ?thesis
    by (rule evaluateBehavioral_situation [OF h1 h2 h3 h4])
qed

text \<open>
  The claim as the specification states it fails twice. An answer of letters and blanks only
  is taken for random characters, and a mash substring is found across blanks of the answer.
  Neither answer repeats a character five times or contains a mash substring, both contain
  \<open>situation\<close>, and both score 0 with no STAR analysis.
\<close>

theorem evaluateBehavioral_situation_counterexample:
  "(''The situation was hard'' \<noteq> [] \<and>
    \<not> repeated5 ''The situation was hard'' \<and>
    \<not> list_ex (includesStr ''The situation was hard'') mashPatterns \<and>
    includesStr ''The situation was hard'' ''situation'' \<and>
    score (evaluateBehavioral ''The situation was hard''
            \<lparr> qid = ''20'', type = behavioral,
              question = ''Describe a situation where you had to work with a difficult team member'',
              difficulty = medium, language = None, expectedAnswer = None, hints = None,
              category = ''Teamwork'', points = 15 \<rparr>) = 0 \<and>
    starAnalysis (evaluateBehavioral ''The situation was hard''
            \<lparr> qid = ''20'', type = behavioral,
              question = ''Describe a situation where you had to work with a difficult team member'',
              difficulty = medium, language = None, expectedAnswer = None, hints = None,
              category = ''Teamwork'', points = 15 \<rparr>) = None) \<and>
   (''My situation: 12 34 open tickets.'' \<noteq> [] \<and>
    \<not> repeated5 ''My situation: 12 34 open tickets.'' \<and>
    \<not> list_ex (includesStr ''My situation: 12 34 open tickets.'') mashPatterns \<and>
    includesStr ''My situation: 12 34 open tickets.'' ''situation'' \<and>
    score (evaluateBehavioral ''My situation: 12 34 open tickets.''
            \<lparr> qid = ''20'', type = behavioral,
              question = ''Describe a situation where you had to work with a difficult team member'',
              difficulty = medium, language = None, expectedAnswer = None, hints = None,
              category = ''Teamwork'', points = 15 \<rparr>) = 0 \<and>
    starAnalysis (evaluateBehavioral ''My situation: 12 34 open tickets.''
            \<lparr> qid = ''20'', type = behavioral,
              question = ''Describe a situation where you had to work with a difficult team member'',
              difficulty = medium, language = None, expectedAnswer = None, hints = None,
              category = ''Teamwork'', points = 15 \<rparr>) = None)"
  by code_simp

subsection \<open>What the result of \<open>evaluateCode\<close> depends on\<close>

lemma evaluateJavaScript_cong:
  assumes "\<forall>p\<in>set codeProbes. includesStr code p = includesStr code' p"
    and "parses code = parses code'"
  shows "evaluateJavaScript parses code q = evaluateJavaScript parses code' q"
proof -
  from assms(1) have e:
    "includesStr code ''function'' = includesStr code' ''function''"
    "includesStr code ''=>'' = includesStr code' ''=>''"
    "includesStr code ''const'' = includesStr code' ''const''"
    "includesStr code ''let'' = includesStr code' ''let''"
    "includesStr code ''.reverse()'' = includesStr code' ''.reverse()''"
    "includesStr code ''for'' = includesStr code' ''for''"
    "includesStr code ''while'' = includesStr code' ''while''"
    "includesStr code ''sort'' = includesStr code' ''sort''"
    "includesStr code ''Math.max'' = includesStr code' ''Math.max''"
    by (simp_all add: codeProbes_def)
  show ?thesis
    unfolding evaluateJavaScript_def by (simp only: e assms(2))
qed

lemma evaluatePython_cong:
  assumes "\<forall>p\<in>set codeProbes. includesStr code p = includesStr code' p"
  shows "evaluatePython code q = evaluatePython code' q"
proof -
  from assms(1) have e:
    "includesStr code ''def '' = includesStr code' ''def ''"
    "includesStr code ''lambda'' = includesStr code' ''lambda''"
    "includesStr code ''return'' = includesStr code' ''return''"
    "includesStr code ''    '' = includesStr code' ''    ''"
    "includesStr code ''[::-1]'' = includesStr code' ''[::-1]''"
    "includesStr code ''for'' = includesStr code' ''for''"
    "includesStr code ''while'' = includesStr code' ''while''"
    by (simp_all add: codeProbes_def)
  show ?thesis
    unfolding evaluatePython_def by (simp only: e)
qed

lemma evaluateSQL_cong:
  assumes "\<forall>p\<in>set sqlProbes. includesStr (toUpperCase code) p = includesStr (toUpperCase code') p"
  shows "evaluateSQL code q = evaluateSQL code' q"
proof -
  from assms(1) have e:
    "includesStr (toUpperCase code) ''SELECT'' = includesStr (toUpperCase code') ''SELECT''"
    "includesStr (toUpperCase code) ''FROM'' = includesStr (toUpperCase code') ''FROM''"
    "includesStr (toUpperCase code) ''LIMIT'' = includesStr (toUpperCase code') ''LIMIT''"
    "includesStr (toUpperCase code) ''OFFSET'' = includesStr (toUpperCase code') ''OFFSET''"
    "includesStr (toUpperCase code) ''ROW_NUMBER()'' = includesStr (toUpperCase code') ''ROW_NUMBER()''"
    "includesStr (toUpperCase code) ''RANK()'' = includesStr (toUpperCase code') ''RANK()''"
    "includesStr (toUpperCase code) ''JOIN'' = includesStr (toUpperCase code') ''JOIN''"
    by (simp_all add: sqlProbes_def)
  show ?thesis
    unfolding evaluateSQL_def by (simp only: e)
qed

lemma evaluateGenericCode_cong:
  assumes "\<forall>p\<in>set codeProbes. includesStr code p = includesStr code' p"
    and "(length code < 10) = (length code' < 10)" and "(20 < length code) = (20 < length code')"
  shows "evaluateGenericCode code q = evaluateGenericCode code' q"
proof -
  from assms(1) have e:
    "includesStr code ''if'' = includesStr code' ''if''"
    "includesStr code ''for'' = includesStr code' ''for''"
    "includesStr code ''while'' = includesStr code' ''while''"
    by (simp_all add: codeProbes_def)
  show ?thesis
    unfolding evaluateGenericCode_def by (simp only: e assms(2,3))
qed

text \<open>
  C3, as the code has it. The result of \<open>evaluateCode\<close> depends on the submission only
  through the blank test, the nonsense test, the presence of the probed substrings in it
  (and of the SQL keywords in its upper-cased form), the two length thresholds of the
  generic evaluator and the verdict of the JavaScript engine on it: two submissions that
  agree on these get the same result, on every question. The engine parses the submission
  (\<open>new Function(code)\<close>) and never runs it.
\<close>

theorem evaluateCode_features:
  assumes "(code = [] \<or> length (trim code) = 0) = (code' = [] \<or> length (trim code') = 0)"
    and "isNonsenseInput code = isNonsenseInput code'"
    and "\<forall>p\<in>set codeProbes. includesStr code p = includesStr code' p"
    and "\<forall>p\<in>set sqlProbes. includesStr (toUpperCase code) p = includesStr (toUpperCase code') p"
    and "(length code < 10) = (length code' < 10)" and "(20 < length code) = (20 < length code')"
    and "parses code = parses code'"
  shows "evaluateCode parses code q = evaluateCode parses code' q"
  unfolding evaluateCode_def
  by (simp only: assms(1,2) evaluateJavaScript_cong [OF assms(3,7)] evaluatePython_cong [OF assms(3)]
      evaluateSQL_cong [OF assms(4)] evaluateGenericCode_cong [OF assms(3,5,6)])

theorem evaluateCode_features_witness:
  "evaluateCode (\<lambda>c. True) ''let x = 1;''
     \<lparr> qid = ''3'', type = coding, question = ''Implement a binary search algorithm in JavaScript'',
       difficulty = medium, language = Some ''javascript'', expectedAnswer = None, hints = None,
       category = ''Search Algorithms'', points = 20 \<rparr> =
   evaluateCode (\<lambda>c. True) ''let y = 2;''
     \<lparr> qid = ''3'', type = coding, question = ''Implement a binary search algorithm in JavaScript'',
       difficulty = medium, language = Some ''javascript'', expectedAnswer = None, hints = None,
       category = ''Search Algorithms'', points = 20 \<rparr>"
proof -
  have h1: "(''let x = 1;'' = [] \<or> length (trim ''let x = 1;'') = 0) =
            (''let y = 2;'' = [] \<or> length (trim ''let y = 2;'') = 0)"
    by code_simp
  have h2: "isNonsenseInput ''let x = 1;'' = isNonsenseInput ''let y = 2;''"
    by code_simp
  have h3: "\<forall>p\<in>set codeProbes. includesStr ''let x = 1;'' p = includesStr ''let y = 2;'' p"
    by code_simp
  have h4: "\<forall>p\<in>set sqlProbes. includesStr (toUpperCase ''let x = 1;'') p =
                                 includesStr (toUpperCase ''let y = 2;'') p"
    by code_simp
  have h5: "(length ''let x = 1;'' < 10) = (length ''let y = 2;'' < 10)"
    by simp
  have h6: "(20 < length ''let x = 1;'') = (20 < length ''let y = 2;'')"
    by simp
  have h7: "(\<lambda>c. True) ''let x = 1;'' = (\<lambda>c. True) ''let y = 2;''"
    by simp
  show ?thesis
    by (rule evaluateCode_features [OF h1 h2 h3 h4 h5 h6 h7])
qed

text \<open>
  The claim as the specification states it fails on the JavaScript path: the same
  submission on the same question scores 2 when the engine accepts it as a function body
  and 0 when the engine rejects it, so the result is not a function of substring presence
  alone. (An engine accepts \<open>let x = 1;\<close> and rejects \<open>let x = ;\<close>, which contain the same
  probed substrings.)
\<close>

theorem evaluateCode_features_counterexample:
  "map_sum id score (evaluateCode (\<lambda>c. True) ''let x = 1;''
     \<lparr> qid = ''3'', type = coding, question = ''Implement a binary search algorithm in JavaScript'',
       difficulty = medium, language = Some ''javascript'', expectedAnswer = None, hints = None,
       category = ''Search Algorithms'', points = 20 \<rparr>) = Inr 2 \<and>
   map_sum id score (evaluateCode (\<lambda>c. False) ''let x = 1;''
     \<lparr> qid = ''3'', type = coding, question = ''Implement a binary search algorithm in JavaScript'',
       difficulty = medium, language = Some ''javascript'', expectedAnswer = None, hints = None,
       category = ''Search Algorithms'', points = 20 \<rparr>) = Inr 0"
  by code_simp

subsection \<open>What is written to storage\<close>

text \<open>
  C8. The persisted object is made of \<open>isDarkMode\<close>, \<open>voiceSettings\<close>,
  \<open>accessibilitySettings\<close> and \<open>userProgress\<close> and of nothing else: two store states
  persist the same object exactly when they agree on these four fields, whatever their job
  description, skill gaps, session, current question and index, interview flags, view,
  loading flag, error and voice flags are.
\<close>

theorem partialize_exactly_preferences:
  "partialize s = partialize s' \<longleftrightarrow>
     isDarkMode s = isDarkMode s' \<and> voiceSettings s = voiceSettings s' \<and>
     accessibilitySettings s = accessibilitySettings s' \<and> userProgress s = userProgress s'"
  by (auto simp: partialize_def)

subsection \<open>The question index during an interview\<close>

lemma inv_start: "qs \<noteq> [] \<Longrightarrow> interviewInv (startInterview now date qs s)"
  by (cases qs) (simp_all add: interviewInv_def startInterview_def)

lemma inv_submit: "interviewInv s \<Longrightarrow> interviewInv (submitAnswer a s)"
  by (auto simp: interviewInv_def submitAnswer_def addXP_def Let_def split: option.splits if_splits)

lemma inv_retry: "interviewInv s \<Longrightarrow> interviewInv (retryQuestion s)"
  by (auto simp: interviewInv_def retryQuestion_def Let_def split: option.splits if_splits)

lemma inv_next: "interviewInv s \<Longrightarrow> interviewInv (nextQuestion date s)"
  by (auto simp: interviewInv_def nextQuestion_def endInterview_def Let_def
      split: option.splits if_splits)

lemma inv_step: "interviewInv s \<Longrightarrow> interviewInv (step a s)"
  by (cases a) (simp_all add: inv_submit inv_retry inv_next)

lemma inv_run: "interviewInv s \<Longrightarrow> interviewInv (run as s)"
  by (induction as arbitrary: s) (simp_all add: inv_step)

lemma questions_submit:
  "map_option questions (currentSession (submitAnswer a s)) = map_option questions (currentSession s)"
  by (auto simp: submitAnswer_def addXP_def Let_def split: option.splits)

lemma questions_retry:
  "map_option questions (currentSession (retryQuestion s)) = map_option questions (currentSession s)"
  by (auto simp: retryQuestion_def Let_def split: option.splits)

lemma questions_next:
  "map_option questions (currentSession (nextQuestion d s)) = map_option questions (currentSession s)"
  by (auto simp: nextQuestion_def endInterview_def Let_def split: option.splits)

lemma questions_step:
  "map_option questions (currentSession (step a s)) = map_option questions (currentSession s)"
  by (cases a) (simp_all add: questions_submit questions_retry questions_next)

lemma questions_run:
  "map_option questions (currentSession (run as s)) = map_option questions (currentSession s)"
  by (induction as arbitrary: s) (simp_all add: questions_step)

lemma reachable_session:
  assumes "qs \<noteq> []" and "s = run as (startInterview now date qs s0)"
  shows "interviewInv s \<and> (\<exists>session. currentSession s = Some session \<and> questions session = qs)"
proof -
  have inv: "interviewInv s"
    unfolding assms(2) using assms(1) by (intro inv_run inv_start)
  have "map_option questions (currentSession s) = Some qs"
    unfolding assms(2) by (simp add: questions_run startInterview_def)
  with inv show ?thesis by auto
qed

text \<open>
  C10, as the code has it. Start an interview on a list of questions that is not empty and
  let the user submit answers, retry and move on in any order. In every state reached in
  which the interview is active, the session holds the questions given, the index is below
  their number and the current question is the question at the index. From such a state
  \<open>nextQuestion\<close> moves the index on by one and leaves the interview active when a question
  is left, and otherwise ends the interview and leaves the index where it is.
\<close>

theorem interview_index_invariant:
  assumes "qs \<noteq> []" and "s = run as (startInterview now date qs s0)" and "isInterviewActive s"
  shows "(\<exists>session. currentSession s = Some session \<and> questions session = qs \<and>
            currentQuestionIndex s < length (questions session) \<and>
            currentQuestion s = Some (questions session ! currentQuestionIndex s)) \<and>
         (if currentQuestionIndex s + 1 < length qs
          then isInterviewActive (nextQuestion d s) \<and>
               currentQuestionIndex (nextQuestion d s) = currentQuestionIndex s + 1
          else \<not> isInterviewActive (nextQuestion d s) \<and>
               interviewPhase (nextQuestion d s) = PhaseComplete \<and>
               currentQuestionIndex (nextQuestion d s) = currentQuestionIndex s)"
proof -
  from reachable_session [OF assms(1,2)] obtain session
    where "interviewInv s" "currentSession s = Some session" "questions session = qs"
    by blast
  with assms(3) show ?thesis
    by (auto simp: interviewInv_def nextQuestion_def endInterview_def Let_def)
qed

theorem interview_index_invariant_witness:
  "[plainQuestion 1 theoretical ''What are the principles of clean code?'' easy ''Code Quality'' 10,
         plainQuestion 2 behavioral ''How do you handle tight deadlines and pressure?'' medium
           ''Stress Management'' 15] \<noteq> [] \<and>
   isInterviewActive (run [RetryQuestion, NextQuestion 7]
      (startInterview 5 5
        [plainQuestion 1 theoretical ''What are the principles of clean code?'' easy ''Code Quality'' 10,
         plainQuestion 2 behavioral ''How do you handle tight deadlines and pressure?'' medium
           ''Stress Management'' 15]
        initialState)) \<and>
   currentQuestionIndex (run [RetryQuestion, NextQuestion 7]
      (startInterview 5 5
        [plainQuestion 1 theoretical ''What are the principles of clean code?'' easy ''Code Quality'' 10,
         plainQuestion 2 behavioral ''How do you handle tight deadlines and pressure?'' medium
           ''Stress Management'' 15]
        initialState)) < 2 \<and>
   \<not> isInterviewActive (nextQuestion 9 (run [RetryQuestion, NextQuestion 7]
      (startInterview 5 5
        [plainQuestion 1 theoretical ''What are the principles of clean code?'' easy ''Code Quality'' 10,
         plainQuestion 2 behavioral ''How do you handle tight deadlines and pressure?'' medium
           ''Stress Management'' 15]
        initialState)))"
proof -
  let ?qs = "[plainQuestion 1 theoretical ''What are the principles of clean code?'' easy ''Code Quality'' 10,
         plainQuestion 2 behavioral ''How do you handle tight deadlines and pressure?'' medium
           ''Stress Management'' 15]"
  let ?s = "run [RetryQuestion, NextQuestion 7] (startInterview 5 5 ?qs initialState)"
  have h1: "?qs \<noteq> []" by simp
  have h3: "isInterviewActive ?s" by code_simp
  have h4: "\<not> currentQuestionIndex ?s + 1 < length ?qs" by code_simp
  from interview_index_invariant [OF h1 refl h3, of 9] h1 h3 h4 show ?thesis
    by (simp only: if_False) auto
qed

text \<open>
  The claim as the specification states it fails for the empty list of questions, which
  \<open>startInterview\<close> accepts: the interview is active, the session has no question, the
  index 0 is not below the number of questions and the current question is \<open>null\<close>.
\<close>

theorem interview_index_invariant_counterexample:
  "isInterviewActive (startInterview 5 5 [] initialState) \<and>
   map_option questions (currentSession (startInterview 5 5 [] initialState)) = Some [] \<and>
   \<not> currentQuestionIndex (startInterview 5 5 [] initialState) < length ([] :: Question list) \<and>
   currentQuestion (startInterview 5 5 [] initialState) = None"
  by (simp add: startInterview_def)

subsection \<open>A job description, analysed\<close>

text \<open>
  A job description for a cloud administrator, which names one programming language and
  no SQL, and what each extractor finds in it.
\<close>

lemma sample_not_short:
  "\<not> (''Position: Cloud Admin\<newline>Company: Acme\<newline>5 years experience with Python, Docker and AWS.'' = [] \<or>
      length (trim ''Position: Cloud Admin\<newline>Company: Acme\<newline>5 years experience with Python, Docker and AWS.'') < 50)"
  by code_simp

lemma sample_skills:
  "extractSkillsFromText ''Position: Cloud Admin\<newline>Company: Acme\<newline>5 years experience with Python, Docker and AWS.'' =
     \<lparr> required = [''Python'', ''AWS'', ''Docker''], preferred = [''R''] \<rparr>"
  by code_simp

lemma sample_languages:
  "extractLanguagesFromText ''Position: Cloud Admin\<newline>Company: Acme\<newline>5 years experience with Python, Docker and AWS.'' = [''Python'']"
  by code_simp

lemma sample_tools:
  "extractToolsFromText ''Position: Cloud Admin\<newline>Company: Acme\<newline>5 years experience with Python, Docker and AWS.'' = [''Docker'', ''AWS'']"
  by code_simp

lemma sample_softSkills:
  "extractSoftSkillsFromText ''Position: Cloud Admin\<newline>Company: Acme\<newline>5 years experience with Python, Docker and AWS.'' = []"
  by code_simp

lemma sample_title:
  "extractTitleFromText ''Position: Cloud Admin\<newline>Company: Acme\<newline>5 years experience with Python, Docker and AWS.'' = ''Cloud Admin''"
  by code_simp

lemma sample_company:
  "extractCompanyFromText ''Position: Cloud Admin\<newline>Company: Acme\<newline>5 years experience with Python, Docker and AWS.'' = ''Acme''"
  by code_simp

lemma sample_experience:
  "extractExperienceFromText ''Position: Cloud Admin\<newline>Company: Acme\<newline>5 years experience with Python, Docker and AWS.'' = ''5 years experience''"
  by code_simp

lemma sample_parse:
  "parseJobDescription ''Position: Cloud Admin\<newline>Company: Acme\<newline>5 years experience with Python, Docker and AWS.'' =
     Inr \<lparr> title = ''Cloud Admin'', company = ''Acme'',
           requiredSkills = [''Python'', ''AWS'', ''Docker''], preferredSkills = [''R''],
           description = ''Position: Cloud Admin\<newline>Company: Acme\<newline>5 years experience with Python, Docker and AWS.'',
           experience = ''5 years experience'', languages = [''Python''], tools = [''Docker'', ''AWS''],
           softSkills = [] \<rparr>"
proof -
  have "length (required (extractSkillsFromText ''Position: Cloud Admin\<newline>Company: Acme\<newline>5 years experience with Python, Docker and AWS.'')) \<noteq> 0"
    by (simp only: sample_skills ExtractedSkills.select_convs) simp
  then show ?thesis
    unfolding parseJobDescription_def Let_def
    by (simp only: sample_not_short if_False simp_thms)
      (simp only: sample_skills sample_languages sample_tools sample_softSkills sample_title
        sample_company sample_experience ExtractedSkills.select_convs)
qed

subsection \<open>The outcomes of \<open>parseJobDescription\<close>\<close>

lemma parse_messages_differ:
  "''Job description too short (minimum 50 characters)'' \<noteq>
   ''No technical skills found. Please include programming languages and tools.''"
  by simp

text \<open>
  C5. \<open>parseJobDescription\<close> makes its checks in this order. It rejects with
  \<open>Job description too short (minimum 50 characters)\<close> exactly when the text is empty or its
  trimmed length is below 50; on the texts that remain it rejects with the message that no
  technical skills were found exactly when \<open>extractSkillsFromText\<close> returns no required
  skill; and otherwise it resolves with a job description whose \<open>description\<close> is the text
  as pasted.
\<close>

theorem parseJobDescription_outcomes:
  "(parseJobDescription text = Inl ''Job description too short (minimum 50 characters)'' \<longleftrightarrow>
      text = [] \<or> length (trim text) < 50) \<and>
   (parseJobDescription text =
      Inl ''No technical skills found. Please include programming languages and tools.'' \<longleftrightarrow>
      \<not> (text = [] \<or> length (trim text) < 50) \<and> required (extractSkillsFromText text) = []) \<and>
   (\<not> (text = [] \<or> length (trim text) < 50) \<and> required (extractSkillsFromText text) \<noteq> [] \<longrightarrow>
      (\<exists>jd. parseJobDescription text = Inr jd \<and> description jd = text))"
proof (cases "text = [] \<or> length (trim text) < 50")
  case True
  then have "parseJobDescription text = Inl ''Job description too short (minimum 50 characters)''"
    by (simp only: parseJobDescription_def if_True)
  with True show ?thesis
    by (simp only: parse_messages_differ simp_thms sum.inject)
next
  case False
  show ?thesis
  proof (cases "required (extractSkillsFromText text) = []")
    case True
    with False have "parseJobDescription text =
        Inl ''No technical skills found. Please include programming languages and tools.''"
      by (simp only: parseJobDescription_def Let_def if_False list.size simp_thms if_True)
    with True False show ?thesis
      by (simp only: parse_messages_differ [symmetric] simp_thms sum.inject)
  next
    case nonempty: False
    then have "length (required (extractSkillsFromText text)) \<noteq> 0"
      by simp
    with False have "\<exists>jd. parseJobDescription text = Inr jd \<and> description jd = text"
      by (simp only: parseJobDescription_def Let_def if_False simp_thms) simp
    with nonempty False show ?thesis
      by auto
  qed
qed

theorem parseJobDescription_outcomes_witness:
  "\<not> (''Position: Cloud Admin\<newline>Company: Acme\<newline>5 years experience with Python, Docker and AWS.'' = [] \<or>
      length (trim ''Position: Cloud Admin\<newline>Company: Acme\<newline>5 years experience with Python, Docker and AWS.'') < 50) \<and>
   required (extractSkillsFromText ''Position: Cloud Admin\<newline>Company: Acme\<newline>5 years experience with Python, Docker and AWS.'') \<noteq> [] \<and>
   (\<exists>jd. parseJobDescription ''Position: Cloud Admin\<newline>Company: Acme\<newline>5 years experience with Python, Docker and AWS.'' = Inr jd \<and>
         description jd = ''Position: Cloud Admin\<newline>Company: Acme\<newline>5 years experience with Python, Docker and AWS.'')"
proof -
  have h: "required (extractSkillsFromText ''Position: Cloud Admin\<newline>Company: Acme\<newline>5 years experience with Python, Docker and AWS.'') \<noteq> []"
    by (simp only: sample_skills ExtractedSkills.select_convs) simp
  from parseJobDescription_outcomes [of "''Position: Cloud Admin\<newline>Company: Acme\<newline>5 years experience with Python, Docker and AWS.''"] sample_not_short h
  show ?thesis
    by blast
qed

subsection \<open>The skills found in a text\<close>

lemma commonSkills_distinct: "distinct commonSkills"
  by code_simp

lemma skillFound_sublist:
  "skillFound (toLowerCase text) s \<longleftrightarrow>
     sublist (toLowerCase s) (toLowerCase text) \<or>
     sublist (removeDotsAndSpaces (toLowerCase s)) (toLowerCase text)"
  by (simp add: skillFound_def includes_sublist)

text \<open>
  C6. A keyword occurs in the text when its lower-cased form, or that form without dots and
  blanks, is a contiguous part of the lower-cased text; \<open>found\<close> lists the keywords of
  \<open>commonSkills\<close> that occur, in the order of that list. Every skill that
  \<open>extractSkillsFromText\<close> returns is a keyword of \<open>commonSkills\<close> and occurs in the text; the
  required skills are the first \<open>max(3, floor(0.7 * n))\<close> of the \<open>n\<close> found and the
  preferred skills are the rest, so that no skill is in both lists and the two lists, one
  after the other, are \<open>found\<close>.
\<close>

theorem extractSkillsFromText_split:
  fixes jobText :: string
  defines "occurs \<equiv> \<lambda>s. sublist (toLowerCase s) (toLowerCase jobText) \<or>
                          sublist (removeDotsAndSpaces (toLowerCase s)) (toLowerCase jobText)"
  defines "found \<equiv> filter occurs commonSkills"
  defines "splitPoint \<equiv> max 3 (nat \<lfloor>rat_of_nat (length found) * (7 / 10)\<rfloor>)"
  shows "(\<forall>s \<in> set (required (extractSkillsFromText jobText)) \<union>
                set (preferred (extractSkillsFromText jobText)).
            s \<in> set commonSkills \<and> occurs s) \<and>
         required (extractSkillsFromText jobText) = take splitPoint found \<and>
         preferred (extractSkillsFromText jobText) = drop splitPoint found \<and>
         set (required (extractSkillsFromText jobText)) \<inter>
           set (preferred (extractSkillsFromText jobText)) = {} \<and>
         required (extractSkillsFromText jobText) @ preferred (extractSkillsFromText jobText) = found"
proof -
  have f: "filter (skillFound (toLowerCase jobText)) commonSkills = found"
    unfolding found_def occurs_def by (rule filter_cong) (simp_all add: skillFound_sublist)
  have r: "required (extractSkillsFromText jobText) = take splitPoint found"
    and p: "preferred (extractSkillsFromText jobText) = drop splitPoint found"
    by (simp_all add: extractSkillsFromText_def Let_def f splitPoint_def)
  have d: "distinct found"
    unfolding found_def using commonSkills_distinct by simp
  have m: "\<forall>s \<in> set found. s \<in> set commonSkills \<and> occurs s"
    unfolding found_def by simp
  have "set (take splitPoint found) \<union> set (drop splitPoint found) = set found"
    by (metis append_take_drop_id set_append)
  with m have "\<forall>s \<in> set (take splitPoint found) \<union> set (drop splitPoint found).
                  s \<in> set commonSkills \<and> occurs s"
    by simp
  moreover have "set (take splitPoint found) \<inter> set (drop splitPoint found) = {}"
    using d by (simp add: set_take_disj_set_drop_if_distinct)
  ultimately show ?thesis
    unfolding r p by simp
qed

theorem extractSkillsFromText_split_witness:
  "''Docker'' \<in> set (required (extractSkillsFromText ''Position: Cloud Admin\<newline>Company: Acme\<newline>5 years experience with Python, Docker and AWS.'')) \<and>
   ''Docker'' \<in> set commonSkills \<and>
   (sublist (toLowerCase ''Docker'') (toLowerCase ''Position: Cloud Admin\<newline>Company: Acme\<newline>5 years experience with Python, Docker and AWS.'') \<or>
    sublist (removeDotsAndSpaces (toLowerCase ''Docker''))
      (toLowerCase ''Position: Cloud Admin\<newline>Company: Acme\<newline>5 years experience with Python, Docker and AWS.''))"
proof -
  have h: "''Docker'' \<in> set (required (extractSkillsFromText ''Position: Cloud Admin\<newline>Company: Acme\<newline>5 years experience with Python, Docker and AWS.''))"
    by (simp only: sample_skills ExtractedSkills.select_convs) simp
  with extractSkillsFromText_split [of "''Position: Cloud Admin\<newline>Company: Acme\<newline>5 years experience with Python, Docker and AWS.''"]
  show ?thesis
    by blast
qed

subsection \<open>The matches of a pattern\<close>

lemmas ms_simps = ms.simps(1-7) ms.simps(9)

lemma toLowerCase_length: "length (toLowerCase s) = length s"
  by (simp add: toLowerCase_def)

lemma take_eq_length: "take n xs = w \<Longrightarrow> length w \<le> length xs"
  by (metis length_take min.cobounded1)

text \<open>A match that starts inside the text ends inside the text, and not before its start.\<close>

lemma ms_bounds:
  "(j, c') \<in> set (ms r t i c) \<Longrightarrow> i \<le> length t \<Longrightarrow> i \<le> j \<and> j \<le> length t"
proof (induction r t i c arbitrary: j c' rule: ms.induct)
  case (1 P t i c)
  then show ?case by (auto simp: ms_simps split: if_splits)
next
  case (2 w t i c)
  then have "take (length w) (drop i t) = w" and j: "j = i + length w"
    by (auto simp: ms_simps split: if_splits)
  then have "length w \<le> length (drop i t)"
    by (metis take_eq_length)
  with j 2(2) show ?case by simp
next
  case (3 w t i c)
  then have "toLowerCase (take (length w) (drop i t)) = toLowerCase w" and j: "j = i + length w"
    by (auto simp: ms_simps split: if_splits)
  then have "length (take (length w) (drop i t)) = length w"
    by (metis toLowerCase_length)
  then have "length w \<le> length (drop i t)"
    by simp
  with j 3(2) show ?case by simp
next
  case (4 t i c)
  then show ?case by (simp add: ms_simps)
next
  case (5 t i c)
  then show ?case by (auto simp: ms_simps split: if_splits)
next
  case (6 a b t i c)
  from 6(3) obtain k ck where k: "(k, ck) \<in> set (ms a t i c)" "(j, c') \<in> set (ms b t k ck)"
    by (auto simp: ms_simps)
  from 6(1) [OF k(1) 6(4)] have "i \<le> k \<and> k \<le> length t" .
  moreover from this 6(2) [OF k(1) _ k(2)] have "k \<le> j \<and> j \<le> length t" by simp
  ultimately show ?case by simp
next
  case (7 a b t i c)
  then show ?case by (auto simp: ms_simps)
next
  case (8 a t i c)
  from 8(3) have "(j, c') \<in> set (concat (map (\<lambda>(j, c'). if i < j \<and> j \<le> length t
                      then ms (Star a) t j c' else []) (ms a t i c)) @ [(i, c)])"
    by (subst (asm) ms.simps(8))
  then consider "(j, c') = (i, c)"
    | k ck where "(k, ck) \<in> set (ms a t i c)" "i < k" "k \<le> length t"
        "(j, c') \<in> set (ms (Star a) t k ck)"
    by (auto split: if_splits)
  then show ?case
  proof cases
    case 1
    with 8(4) show ?thesis by simp
  next
    case 2
    from 8(2) [OF 2(1) _ _ 2(4)] 2(2,3) show ?thesis by simp
  qed
next
  case (9 n a t i c)
  then show ?case by (auto simp: ms_simps)
qed

lemma ms_consuming:
  "consuming r \<Longrightarrow> (j, c') \<in> set (ms r t i c) \<Longrightarrow> i \<le> length t \<Longrightarrow> i < j"
proof (induction r arbitrary: i j c c')
  case (Seq a b)
  from Seq(4) obtain k ck where k: "(k, ck) \<in> set (ms a t i c)" "(j, c') \<in> set (ms b t k ck)"
    by (auto simp: ms_simps)
  from ms_bounds [OF k(1) Seq(5)] have ik: "i \<le> k" "k \<le> length t" by simp_all
  from ms_bounds [OF k(2) ik(2)] have kj: "k \<le> j" by simp
  from Seq(3) have "consuming a \<or> consuming b" by simp
  then show ?case
  proof
    assume "consuming a"
    from Seq(1) [OF this k(1) Seq(5)] kj show ?thesis by simp
  next
    assume "consuming b"
    from Seq(2) [OF this k(2) ik(2)] ik show ?thesis by simp
  qed
qed (auto simp: ms_simps split: if_splits)

lemma ms_capturing:
  "capturing r \<Longrightarrow> (j, c') \<in> set (ms r t i c) \<Longrightarrow> i \<le> length t \<Longrightarrow>
   \<exists>k l. map_of c' 1 = Some (k, l) \<and> k < l \<and> l \<le> length t"
proof (induction r arbitrary: i j c c')
  case (Seq a b)
  from Seq(4) obtain k ck where k: "(k, ck) \<in> set (ms a t i c)" "(j, c') \<in> set (ms b t k ck)"
    by (auto simp: ms_simps)
  from ms_bounds [OF k(1) Seq(5)] have "k \<le> length t" by simp
  with Seq(2) [OF _ k(2)] Seq(3) show ?case by simp
next
  case (Cap n b)
  from Cap(3) obtain cb where cb: "(j, cb) \<in> set (ms b t i c)" "c' = (n, i, j) # cb"
    by (auto simp: ms_simps)
  from Cap(2) have "n = 1" "consuming b" by simp_all
  from ms_consuming [OF this(2) cb(1) Cap(4)] ms_bounds [OF cb(1) Cap(4)] cb(2) \<open>n = 1\<close>
  show ?case by simp
qed simp_all

lemma scan_Some:
  "scan r t i0 = Some (i, j, c) \<Longrightarrow> i \<le> length t \<and> (j, c) \<in> set (ms r t i [])"
proof (induction r t i0 rule: scan.induct)
  case (1 r t i0)
  show ?case
  proof (cases "ms r t i0 []")
    case Nil
    with 1 show ?thesis
      by (subst (asm) (2) scan.simps) (simp split: if_splits)
  next
    case (Cons x xs)
    with 1(2) show ?thesis
      by (subst (asm) scan.simps) (cases x, auto split: if_splits)
  qed
qed

text \<open>Group 1 of a match of such a pattern is defined and not empty.\<close>

lemma capturing_group:
  assumes "capturing r" and "matchRegex t r = Some m"
  shows "\<exists>g. group t m 1 = Some g \<and> g \<noteq> []"
proof -
  obtain i j c where m: "m = (i, j, c)" by (cases m)
  with assms(2) have "i \<le> length t" "(j, c) \<in> set (ms r t i [])"
    using scan_Some [of r t 0 i j c] by (simp_all add: matchRegex_def)
  from ms_capturing [OF assms(1) this(2) this(1)]
  obtain k l where "map_of c 1 = Some (k, l)" "k < l" "l \<le> length t" by blast
  with m show ?thesis
    by (simp add: group_def substring_def)
qed

lemma firstTrimmedCapture_capturing:
  "list_all capturing ps \<Longrightarrow>
   firstTrimmedCapture ps t =
     (case firstMatching ps t of
        None \<Rightarrow> None
      | Some m \<Rightarrow> Some (case group t m 1 of None \<Rightarrow> [] | Some g \<Rightarrow> trim g))"
proof (induction ps)
  case Nil
  then show ?case by simp
next
  case (Cons p ps)
  show ?case
  proof (cases "matchRegex t p")
    case None
    with Cons show ?thesis by simp
  next
    case (Some m)
    from Cons(2) have "capturing p" by simp
    from capturing_group [OF this Some] obtain g where "group t m 1 = Some g" "g \<noteq> []"
      by blast
    with Some show ?thesis by simp
  qed
qed

lemma titlePatterns_capturing: "list_all capturing titlePatterns"
  by (simp add: titlePatterns_def Plus_def Opt_def)

lemma companyPatterns_capturing: "list_all capturing companyPatterns"
  by (simp add: companyPatterns_def companyName_def Plus_def Opt_def)

text \<open>The patterns at work: the third title pattern, the fallbacks, a capture that trims to nothing.\<close>

lemma example_title_hiring:
  "extractTitleFromText ''hiring for a tester'' = ''a tester''"
  by code_simp

lemma example_title_line:
  "extractTitleFromText ''Hi\<newline> Lead dev \<newline>Bye'' = ''Lead dev''"
  by code_simp

lemma example_title_fallback:
  "extractTitleFromText ''nothing here'' = ''Software Developer''"
  by code_simp

lemma example_title_blank_capture:
  "extractTitleFromText ''Title:   '' = []"
  by code_simp

lemma example_company_at:
  "extractCompanyFromText ''work at Acme Inc now'' = ''Acme Inc''"
  by code_simp

lemma example_company_fallback:
  "extractCompanyFromText ''nothing here'' = ''TechCorp Inc.''"
  by code_simp

text \<open>
  C7. \<open>extractTitleFromText\<close> returns the trimmed first capture group of the first of its
  three patterns that matches the text, and \<open>Software Developer\<close> when none matches;
  \<open>extractCompanyFromText\<close> does the same with its three patterns and \<open>TechCorp Inc.\<close>.
  The test \<open>match[1]\<close> of the loop never makes it pass over a pattern that matches, since
  each pattern captures at least one character.
\<close>

theorem extract_title_company_first_match:
  "extractTitleFromText text = trimmedFirstCapture titlePatterns ''Software Developer'' text \<and>
   extractCompanyFromText text = trimmedFirstCapture companyPatterns ''TechCorp Inc.'' text"
  by (simp add: extractTitleFromText_def extractCompanyFromText_def trimmedFirstCapture_def
      firstTrimmedCapture_capturing titlePatterns_capturing companyPatterns_capturing
      split: option.splits)

subsection \<open>The questions of an interview\<close>

lemma codingQuestions_types:
  "map type (take k (codingQuestions lang n)) = replicate (min k 3) coding"
proof -
  have "map type (codingQuestions lang n) = replicate 3 coding"
    by (simp add: codingQuestions_def numeral_3_eq_3)
  then show ?thesis
    by (simp add: take_map [symmetric] min.commute)
qed

lemma codingLoop_types:
  "map type (fst (codingLoop langs index n)) =
     replicate (if langs = [] then 0 else if index = 0 then 2 * length langs + 1
                else 2 * length langs) coding"
proof (induction langs arbitrary: index n)
  case Nil
  then show ?case by simp
next
  case (Cons lang langs)
  have "map type (fst (codingLoop (lang # langs) index n)) =
          map type (take (if index = 0 then 3 else 2) (codingQuestions lang n)) @
          map type (fst (codingLoop langs (index + 1) (n + 3)))"
    by (simp add: case_prod_unfold Let_def)
  also have "\<dots> = replicate (if index = 0 then 3 else 2) coding @
                   replicate (if langs = [] then 0 else 2 * length langs) coding"
    by (simp add: codingQuestions_types Cons.IH)
  also have "\<dots> = replicate (if index = 0 then 2 * length (lang # langs) + 1
                               else 2 * length (lang # langs)) coding"
    by (simp add: replicate_add [symmetric])
  finally show ?case by simp
qed

lemma sqlQuestions_types: "map type (sqlQuestions n) = replicate 5 sql"
  by (simp add: sqlQuestions_def plainQuestion_def eval_nat_numeral)

lemma theoreticalQuestions_types: "map type (theoreticalQuestions n) = replicate 10 theoretical"
  by (simp add: theoreticalQuestions_def plainQuestion_def eval_nat_numeral)

lemma behavioralQuestions_types: "map type (behavioralQuestions n) = replicate 5 behavioral"
  by (simp add: behavioralQuestions_def plainQuestion_def eval_nat_numeral)

lemma generateQuestions_types_any:
  "map type (generateQuestions (Some jd)) =
     replicate (if languages jd = [] then 0 else 2 * length (languages jd) + 1) coding @
     replicate (if list_ex (\<lambda>skill. includesStr (toLowerCase skill) ''sql'') (requiredSkills jd)
                then 5 else 0) sql @
     replicate 10 theoretical @
     replicate 5 behavioral"
proof -
  have "map type (fst (codingLoop (languages jd) 0 1)) =
          replicate (if languages jd = [] then 0 else 2 * length (languages jd) + 1) coding"
    by (simp add: codingLoop_types)
  then show ?thesis
    by (simp add: generateQuestions_def case_prod_unfold Let_def sqlQuestions_types
        theoreticalQuestions_types behavioralQuestions_types)
qed

text \<open>
  C1, as the code has it. For a job description that names \<open>n\<close> languages, at least one,
  \<open>generateQuestions\<close> returns, in this order: \<open>2 * n + 1\<close> coding questions, three for the
  first language and two for each further one; five SQL questions when a required skill
  contains \<open>sql\<close> in any letter case, and none otherwise; ten theoretical questions; five
  behavioral questions.
\<close>

theorem generateQuestions_types:
  assumes "languages jd \<noteq> []"
  shows "map type (generateQuestions (Some jd)) =
           replicate (2 * length (languages jd) + 1) coding @
           replicate (if list_ex (\<lambda>skill. includesStr (toLowerCase skill) ''sql'') (requiredSkills jd)
                      then 5 else 0) sql @
           replicate 10 theoretical @
           replicate 5 behavioral"
  using assms by (simp only: generateQuestions_types_any if_False)

theorem generateQuestions_types_witness:
  "languages \<lparr> title = ''Data Engineer'', company = ''Acme'',
           requiredSkills = [''Python'', ''SQL'', ''AWS''], preferredSkills = [''Go''],
           description = ''Data Engineer at Acme: Python, SQL, AWS and Go, 3 years of experience.'',
           experience = ''3 years of experience'', languages = [''Python'', ''Go''], tools = [''AWS''],
           softSkills = [] \<rparr> \<noteq> [] \<and>
   map type (generateQuestions (Some
         \<lparr> title = ''Data Engineer'', company = ''Acme'',
           requiredSkills = [''Python'', ''SQL'', ''AWS''], preferredSkills = [''Go''],
           description = ''Data Engineer at Acme: Python, SQL, AWS and Go, 3 years of experience.'',
           experience = ''3 years of experience'', languages = [''Python'', ''Go''], tools = [''AWS''],
           softSkills = [] \<rparr>)) =
     replicate 5 coding @ replicate 5 sql @ replicate 10 theoretical @ replicate 5 behavioral"
proof -
  let ?jd = "\<lparr> title = ''Data Engineer'', company = ''Acme'',
           requiredSkills = [''Python'', ''SQL'', ''AWS''], preferredSkills = [''Go''],
           description = ''Data Engineer at Acme: Python, SQL, AWS and Go, 3 years of experience.'',
           experience = ''3 years of experience'', languages = [''Python'', ''Go''], tools = [''AWS''],
           softSkills = [] \<rparr>"
  have h: "languages ?jd \<noteq> []"
    by simp
  have n: "2 * length (languages ?jd) + 1 = 5"
    by simp
  have q: "list_ex (\<lambda>skill. includesStr (toLowerCase skill) ''sql'') (requiredSkills ?jd)"
    by code_simp
  from generateQuestions_types [OF h] h show ?thesis
    by (simp only: n q if_True simp_thms)
qed

text \<open>
  The claim as the specification states it fails on the job description above, as
  \<open>parseJobDescription\<close> returns it: no required skill contains \<open>sql\<close>, and its interview
  has eighteen questions, none of them an SQL question.
\<close>

theorem generateQuestions_types_counterexample:
  "parseJobDescription ''Position: Cloud Admin\<newline>Company: Acme\<newline>5 years experience with Python, Docker and AWS.'' =
     Inr \<lparr> title = ''Cloud Admin'', company = ''Acme'',
           requiredSkills = [''Python'', ''AWS'', ''Docker''], preferredSkills = [''R''],
           description = ''Position: Cloud Admin\<newline>Company: Acme\<newline>5 years experience with Python, Docker and AWS.'',
           experience = ''5 years experience'', languages = [''Python''], tools = [''Docker'', ''AWS''],
           softSkills = [] \<rparr> \<and>
   map type (generateQuestions (Some
         \<lparr> title = ''Cloud Admin'', company = ''Acme'',
           requiredSkills = [''Python'', ''AWS'', ''Docker''], preferredSkills = [''R''],
           description = ''Position: Cloud Admin\<newline>Company: Acme\<newline>5 years experience with Python, Docker and AWS.'',
           experience = ''5 years experience'', languages = [''Python''], tools = [''Docker'', ''AWS''],
           softSkills = [] \<rparr>)) =
     [coding, coding, coding,
      theoretical, theoretical, theoretical, theoretical, theoretical,
      theoretical, theoretical, theoretical, theoretical, theoretical,
      behavioral, behavioral, behavioral, behavioral, behavioral]"
proof -
  have "map type (generateQuestions (Some
         \<lparr> title = ''Cloud Admin'', company = ''Acme'',
           requiredSkills = [''Python'', ''AWS'', ''Docker''], preferredSkills = [''R''],
           description = ''Position: Cloud Admin\<newline>Company: Acme\<newline>5 years experience with Python, Docker and AWS.'',
           experience = ''5 years experience'', languages = [''Python''], tools = [''Docker'', ''AWS''],
           softSkills = [] \<rparr>)) =
     [coding, coding, coding,
      theoretical, theoretical, theoretical, theoretical, theoretical,
      theoretical, theoretical, theoretical, theoretical, theoretical,
      behavioral, behavioral, behavioral, behavioral, behavioral]"
    by code_simp
  with sample_parse show ?thesis
    by (rule conjI)
qed

end
